theory Spec2Isabelle
  imports Main
begin

section \<open>Permission constants (src/permissions/constants.js)\<close>

text \<open>
  The enumerations \<open>USER_ROLE\<close> and \<open>PROJECT_MEMBER_ROLE\<close> are imported by
  \<open>permissions/constants.js\<close> from \<open>../constants\<close>. Each member the file names is a
  constructor here; the constructors are prefixed because the two enumerations share
  member names (\<open>MANAGER\<close>, \<open>COPILOT\<close>, ...).
\<close>

datatype user_role =
    USER_TOPCODER_ADMIN
  | USER_CONNECT_ADMIN
  | USER_MANAGER
  | USER_SOLUTION_ARCHITECT
  | USER_PROJECT_MANAGER
  | USER_PROGRAM_MANAGER
  | USER_ACCOUNT_EXECUTIVE
  | USER_TOPCODER_ACCOUNT_MANAGER
  | USER_BUSINESS_DEVELOPMENT_REPRESENTATIVE
  | USER_PRESALES
  | USER_COPILOT
  | USER_COPILOT_MANAGER
  | USER_TOPCODER_USER

datatype project_member_role =
    PM_MANAGER
  | PM_SOLUTION_ARCHITECT
  | PM_PROJECT_MANAGER
  | PM_PROGRAM_MANAGER
  | PM_ACCOUNT_EXECUTIVE
  | PM_ACCOUNT_MANAGER
  | PM_COPILOT
  | PM_CUSTOMER

text \<open>\<open>const TOPCODER_ROLES_ALL = _.values(USER_ROLE)\<close>\<close>

definition TOPCODER_ROLES_ALL :: "user_role list" where
  "TOPCODER_ROLES_ALL =
     [USER_TOPCODER_ADMIN, USER_CONNECT_ADMIN, USER_MANAGER, USER_SOLUTION_ARCHITECT,
      USER_PROJECT_MANAGER, USER_PROGRAM_MANAGER, USER_ACCOUNT_EXECUTIVE,
      USER_TOPCODER_ACCOUNT_MANAGER, USER_BUSINESS_DEVELOPMENT_REPRESENTATIVE,
      USER_PRESALES, USER_COPILOT, USER_COPILOT_MANAGER, USER_TOPCODER_USER]"

text \<open>
  \<open>PROJECT_TO_TOPCODER_ROLES_MATRIX\<close>: an object keyed by project role, kept as the
  association list of its entries in source order.
\<close>

definition PROJECT_TO_TOPCODER_ROLES_MATRIX :: "(project_member_role \<times> user_role list) list" where
  "PROJECT_TO_TOPCODER_ROLES_MATRIX =
     [(PM_MANAGER, [USER_TOPCODER_ADMIN, USER_CONNECT_ADMIN, USER_MANAGER]),
      (PM_SOLUTION_ARCHITECT, [USER_SOLUTION_ARCHITECT]),
      (PM_PROJECT_MANAGER, [USER_PROJECT_MANAGER]),
      (PM_PROGRAM_MANAGER, [USER_PROGRAM_MANAGER]),
      (PM_ACCOUNT_EXECUTIVE, [USER_ACCOUNT_EXECUTIVE]),
      (PM_ACCOUNT_MANAGER,
         [USER_MANAGER, USER_TOPCODER_ACCOUNT_MANAGER,
          USER_BUSINESS_DEVELOPMENT_REPRESENTATIVE, USER_PRESALES, USER_ACCOUNT_EXECUTIVE,
          USER_PROGRAM_MANAGER, USER_SOLUTION_ARCHITECT, USER_PROJECT_MANAGER]),
      (PM_COPILOT, [USER_COPILOT]),
      (PM_CUSTOMER, TOPCODER_ROLES_ALL)]"

record default_role =
  topcoderRole :: user_role
  projectRole :: project_member_role

definition DEFAULT_PROJECT_ROLE :: "default_role list" where
  "DEFAULT_PROJECT_ROLE =
     [\<lparr>topcoderRole = USER_MANAGER, projectRole = PM_MANAGER\<rparr>,
      \<lparr>topcoderRole = USER_CONNECT_ADMIN, projectRole = PM_MANAGER\<rparr>,
      \<lparr>topcoderRole = USER_TOPCODER_ADMIN, projectRole = PM_MANAGER\<rparr>,
      \<lparr>topcoderRole = USER_TOPCODER_ACCOUNT_MANAGER, projectRole = PM_ACCOUNT_MANAGER\<rparr>,
      \<lparr>topcoderRole = USER_BUSINESS_DEVELOPMENT_REPRESENTATIVE, projectRole = PM_ACCOUNT_MANAGER\<rparr>,
      \<lparr>topcoderRole = USER_PRESALES, projectRole = PM_ACCOUNT_MANAGER\<rparr>,
      \<lparr>topcoderRole = USER_COPILOT, projectRole = PM_ACCOUNT_MANAGER\<rparr>,
      \<lparr>topcoderRole = USER_ACCOUNT_EXECUTIVE, projectRole = PM_ACCOUNT_EXECUTIVE\<rparr>,
      \<lparr>topcoderRole = USER_PROGRAM_MANAGER, projectRole = PM_PROGRAM_MANAGER\<rparr>,
      \<lparr>topcoderRole = USER_SOLUTION_ARCHITECT, projectRole = PM_SOLUTION_ARCHITECT\<rparr>,
      \<lparr>topcoderRole = USER_PROJECT_MANAGER, projectRole = PM_PROJECT_MANAGER\<rparr>,
      \<lparr>topcoderRole = USER_TOPCODER_USER, projectRole = PM_CUSTOMER\<rparr>]"

text \<open>
  The consistency the comment above \<open>DEFAULT_PROJECT_ROLE\<close> asks for: the project role
  of an entry is allowed for its Topcoder role, that is, the matrix row of the project
  role lists the Topcoder role. A project role with no row allows nothing.
\<close>

definition allowed_by_matrix :: "default_role \<Rightarrow> bool" where
  "allowed_by_matrix e =
     (case map_of PROJECT_TO_TOPCODER_ROLES_MATRIX (projectRole e) of
        None \<Rightarrow> False
      | Some roles \<Rightarrow> topcoderRole e \<in> set roles)"

section \<open>Values, errors and responses\<close>

text \<open>JSON values: request bodies, JSON columns and response bodies.\<close>

datatype val =
    VNull
  | VBool bool
  | VNum int
  | VStr string
  | VArr "val list"
  | VObj "(string \<times> val) list"

text \<open>
  Decimal text of a number, as a template literal \<open>`${n}`\<close> prints an integer.
\<close>

fun digits :: "nat \<Rightarrow> string" where
  "digits n =
     (if n < 10 then [''0123456789'' ! n]
      else digits (n div 10) @ [''0123456789'' ! (n mod 10)])"

definition show_int :: "int \<Rightarrow> string" where
  "show_int i = (if i < 0 then CHR ''-'' # digits (nat (- i)) else digits (nat i))"

text \<open>
  A JavaScript \<open>Error\<close> with its message and the \<open>status\<close> property the handlers set
  (\<open>apiErr.status = 404\<close>), or a \<open>TypeError\<close> raised by the runtime.
\<close>

datatype error =
    Error string "nat option"
  | TypeError string

fun error_status :: "error \<Rightarrow> nat option" where
  "error_status (Error msg st) = st"
| "error_status (TypeError msg) = None"

text \<open>
  What a handler does with the response object: \<open>res.status(n).end()\<close>,
  \<open>res.status(n).json(util.wrapResponse(id, content, count, status))\<close>
  (\<open>util.wrapResponse\<close> is kept as a constructor of its four arguments),
  \<open>res.send(object)\<close>, or \<open>next(err)\<close>, which hands the error to the generic error
  middleware. \<open>NoResponse\<close> is a request that is never answered.
\<close>

datatype body =
    EmptyBody
  | wrapResponse string val nat nat
  | JsonBody val

datatype response =
    Res nat body
  | Next error
  | NoResponse

text \<open>
  The request fields the handlers read. \<open>req.params.version\<close> is a number once the Joi
  schema has converted it; \<open>req.query\<close> maps a parameter name to its text.
\<close>

record request =
  req_method :: string
  req_path :: string
  req_query :: "(string \<times> string) list"
  params_key :: string
  params_version :: int
  body_param_phases :: val
  authUser_userId :: int
  req_id :: string

section \<open>Promises and transactions\<close>

text \<open>
  A promise chain over the database is a function from the stored rows to a result and
  the rows after it; \<open>Inl\<close> is a rejected promise. \<open>sequelize.transaction(callback)\<close>
  commits when the promise the callback returns resolves, and rolls the rows back when it
  rejects. \<open>.catch(next)\<close> turns a rejection into a call of \<open>next\<close> and a resolved promise.
  Both handlers below put \<open>.catch(next)\<close> inside the callback of the transaction.
\<close>

definition transaction :: "('s \<Rightarrow> (error + 'a) \<times> 's) \<Rightarrow> 's \<Rightarrow> (error + 'a) \<times> 's" where
  "transaction callback s =
     (case callback s of
        (Inl e, s') \<Rightarrow> (Inl e, s)
      | (Inr a, s') \<Rightarrow> (Inr a, s'))"

definition catch_next :: "(error + response) \<times> 's \<Rightarrow> (error + response) \<times> 's" where
  "catch_next r =
     (case r of
        (Inl e, s) \<Rightarrow> (Inr (Next e), s)
      | (Inr x, s) \<Rightarrow> (Inr x, s))"

text \<open>
  The handler drops the promise \<open>sequelize.transaction\<close> returns: a rejection there
  would leave the request unanswered.
\<close>

definition answered :: "(error + response) \<times> 's \<Rightarrow> response \<times> 's" where
  "answered r =
     (case r of
        (Inl e, s) \<Rightarrow> (NoResponse, s)
      | (Inr x, s) \<Rightarrow> (x, s))"

section \<open>Form versions (src/routes/form/version/delete.js, first module)\<close>

text \<open>
  A row of the \<open>Form\<close> table, with the columns the handler reads or writes. The model is
  paranoid: \<open>destroy\<close> sets \<open>deletedAt\<close>, and \<open>findAll\<close> and \<open>destroy\<close> see only rows
  whose \<open>deletedAt\<close> is null. \<open>Form.update(values, { where })\<close> adds no such condition
  (the models are defined with \<open>classMethods\<close>, the Sequelize 3 interface): it updates
  every row the \<open>where\<close> clause selects, soft-deleted ones included.
\<close>

record form =
  form_id :: int
  form_key :: string
  form_version :: int
  form_revision :: int
  form_config :: val
  form_deletedBy :: "int option"
  form_deletedAt :: "nat option"

definition Form_where :: "string \<Rightarrow> int \<Rightarrow> form \<Rightarrow> bool" where
  "Form_where key version f =
     (form_key f = key \<and> form_version f = version \<and> form_deletedAt f = None)"

definition Form_key_version :: "string \<Rightarrow> int \<Rightarrow> form \<Rightarrow> bool" where
  "Form_key_version key version f = (form_key f = key \<and> form_version f = version)"

definition Form_findAll :: "string \<Rightarrow> int \<Rightarrow> form list \<Rightarrow> form list" where
  "Form_findAll key version forms = filter (Form_where key version) forms"

definition Form_update_deletedBy :: "int \<Rightarrow> string \<Rightarrow> int \<Rightarrow> form list \<Rightarrow> form list" where
  "Form_update_deletedBy userId key version forms =
     map (\<lambda>f. if Form_key_version key version f then f\<lparr>form_deletedBy := Some userId\<rparr> else f)
       forms"

definition Form_destroy :: "nat \<Rightarrow> string \<Rightarrow> int \<Rightarrow> form list \<Rightarrow> form list" where
  "Form_destroy now key version forms =
     map (\<lambda>f. if Form_where key version f then f\<lparr>form_deletedAt := Some now\<rparr> else f) forms"

definition form_not_found :: "request \<Rightarrow> error" where
  "form_not_found req =
     Error (''Form not found for key '' @ params_key req @ '' version '' @
            show_int (params_version req)) (Some 404)"

text \<open>The promise chain inside the transaction, before \<open>.catch(next)\<close>.\<close>

definition form_version_delete_chain ::
    "nat \<Rightarrow> request \<Rightarrow> form list \<Rightarrow> (error + response) \<times> form list" where
  "form_version_delete_chain now req forms =
     (let allRevision = Form_findAll (params_key req) (params_version req) forms in
      if length allRevision = 0 then (Inl (form_not_found req), forms)
      else
        let forms1 = Form_update_deletedBy (authUser_userId req) (params_key req)
                       (params_version req) forms;
            forms2 = Form_destroy now (params_key req) (params_version req) forms1
        in (Inr (Res 204 EmptyBody), forms2))"

definition form_version_delete :: "nat \<Rightarrow> request \<Rightarrow> form list \<Rightarrow> response \<times> form list" where
  "form_version_delete now req forms =
     answered (transaction (\<lambda>s. catch_next (form_version_delete_chain now req s)) forms)"

section \<open>PlanConfig revisions (src/routes/form/version/delete.js, second module)\<close>

record planConfig =
  pc_id :: int
  pc_key :: string
  pc_version :: int
  pc_revision :: int
  pc_phases :: val
  pc_createdBy :: int
  pc_updatedBy :: int
  pc_deletedBy :: "int option"
  pc_deletedAt :: "nat option"

definition PlanConfig_where :: "string \<Rightarrow> int \<Rightarrow> planConfig \<Rightarrow> bool" where
  "PlanConfig_where key version p =
     (pc_key p = key \<and> pc_version p = version \<and> pc_deletedAt p = None)"

text \<open>\<open>findAll({ where: { key, version }, order: [['revision', 'DESC']] })\<close>\<close>

definition PlanConfig_findAll :: "string \<Rightarrow> int \<Rightarrow> planConfig list \<Rightarrow> planConfig list" where
  "PlanConfig_findAll key version rows =
     rev (sort_key pc_revision (filter (PlanConfig_where key version) rows))"

text \<open>The number of revisions stored for a key and version.\<close>

definition revision_count :: "string \<Rightarrow> int \<Rightarrow> planConfig list \<Rightarrow> nat" where
  "revision_count key version rows = length (filter (PlanConfig_where key version) rows)"

text \<open>
  Two helpers of the eviction below: \<open>evict_first P g\<close> applies \<open>g\<close> to the first row
  that satisfies \<open>P\<close>, and \<open>oldest_revision\<close> is the lowest revision number stored for a
  key and version.
\<close>

fun evict_first :: "(planConfig \<Rightarrow> bool) \<Rightarrow> (planConfig \<Rightarrow> planConfig) \<Rightarrow> planConfig list \<Rightarrow> planConfig list" where
  "evict_first P g [] = []"
| "evict_first P g (x # xs) = (if P x then g x # xs else x # evict_first P g xs)"

definition oldest_revision :: "string \<Rightarrow> int \<Rightarrow> planConfig list \<Rightarrow> int option" where
  "oldest_revision key version rows =
     (case map pc_revision (filter (PlanConfig_where key version) rows) of
        [] \<Rightarrow> None
      | r # rs \<Rightarrow> Some (fold min rs r))"

text \<open>
  Modelled from the spec: \<open>PlanConfig.deleteOldestRevision(userId, key, version)\<close> is a
  class method of the PlanConfig model, whose file is not among the sources. The spec
  describes a maximum-revision-count eviction policy that trims the bounded list of
  revisions; the method is modelled as evicting the oldest revision of the key and
  version, the row with the lowest revision number (the first such row in table order),
  by recording \<open>deletedBy\<close> and soft-deleting it. With no revision stored it changes
  nothing.
\<close>

definition deleteOldestRevision ::
    "nat \<Rightarrow> int \<Rightarrow> string \<Rightarrow> int \<Rightarrow> planConfig list \<Rightarrow> planConfig list" where
  "deleteOldestRevision now userId key version rows =
     (case oldest_revision key version rows of
        None \<Rightarrow> rows
      | Some m \<Rightarrow>
          evict_first (\<lambda>p. PlanConfig_where key version p \<and> pc_revision p = m)
            (\<lambda>p. p\<lparr>pc_deletedBy := Some userId, pc_deletedAt := Some now\<rparr>) rows)"

text \<open>
  \<open>PlanConfig.create(entity)\<close>: the database assigns the next id, and the new row is
  not deleted.
\<close>

record planConfig_entity =
  ent_version :: int
  ent_revision :: int
  ent_createdBy :: int
  ent_updatedBy :: int
  ent_key :: string
  ent_phases :: val

definition next_id :: "planConfig list \<Rightarrow> int" where
  "next_id rows = fold max (map pc_id rows) 0 + 1"

definition PlanConfig_create :: "planConfig_entity \<Rightarrow> planConfig list \<Rightarrow> planConfig \<times> planConfig list" where
  "PlanConfig_create entity rows =
     (let created = \<lparr>pc_id = next_id rows, pc_key = ent_key entity,
                      pc_version = ent_version entity, pc_revision = ent_revision entity,
                      pc_phases = ent_phases entity, pc_createdBy = ent_createdBy entity,
                      pc_updatedBy = ent_updatedBy entity, pc_deletedBy = None,
                      pc_deletedAt = None\<rparr>
      in (created, rows @ [created]))"

text \<open>\<open>_.omit(createdEntity.toJSON(), 'deletedAt', 'deletedBy')\<close>\<close>

definition opt_num :: "int option \<Rightarrow> val" where
  "opt_num x = (case x of None \<Rightarrow> VNull | Some n \<Rightarrow> VNum n)"

definition planConfig_toJSON :: "planConfig \<Rightarrow> (string \<times> val) list" where
  "planConfig_toJSON p =
     [(''id'', VNum (pc_id p)), (''key'', VStr (pc_key p)), (''version'', VNum (pc_version p)),
      (''revision'', VNum (pc_revision p)), (''phases'', pc_phases p),
      (''createdBy'', VNum (pc_createdBy p)), (''updatedBy'', VNum (pc_updatedBy p)),
      (''deletedBy'', opt_num (pc_deletedBy p)),
      (''deletedAt'', opt_num (map_option int (pc_deletedAt p)))]"

definition omit :: "string list \<Rightarrow> (string \<times> val) list \<Rightarrow> (string \<times> val) list" where
  "omit keys obj = filter (\<lambda>kv. fst kv \<notin> set keys) obj"

definition planConfig_not_found :: "request \<Rightarrow> error" where
  "planConfig_not_found req =
     Error (''PlanConfig not found for key '' @ params_key req @ '' version '' @
            show_int (params_version req)) (Some 404)"

text \<open>
  The first \<open>then\<close> of the chain: which stored revision the new one is numbered from.
  \<open>planConfigs[0]\<close> of an empty array is \<open>undefined\<close>, here \<open>None\<close>.
\<close>

definition first_of :: "'a list \<Rightarrow> 'a option" where
  "first_of xs = (case xs of [] \<Rightarrow> None | x # _ \<Rightarrow> Some x)"

definition planConfig_latest ::
    "int \<Rightarrow> nat \<Rightarrow> request \<Rightarrow> planConfig list \<Rightarrow> (error + planConfig option) \<times> planConfig list" where
  "planConfig_latest MAX_REVISION_NUMBER now req rows =
     (let planConfigs = PlanConfig_findAll (params_key req) (params_version req) rows in
      if int (length planConfigs) \<ge> MAX_REVISION_NUMBER then
        (Inr (first_of planConfigs),
         deleteOldestRevision now (authUser_userId req) (params_key req) (params_version req) rows)
      else if length planConfigs = 0 then (Inl (planConfig_not_found req), rows)
      else (Inr (first_of planConfigs), rows))"

text \<open>The second and third \<open>then\<close>: build the entity, create it, answer 201.\<close>

definition planConfig_entity_of :: "request \<Rightarrow> planConfig \<Rightarrow> planConfig_entity" where
  "planConfig_entity_of req planConfig =
     (let revisison = pc_revision planConfig + 1 in
      \<lparr>ent_version = params_version req, ent_revision = revisison,
       ent_createdBy = authUser_userId req, ent_updatedBy = authUser_userId req,
       ent_key = params_key req, ent_phases = body_param_phases req\<rparr>)"

definition planConfig_create_chain ::
    "int \<Rightarrow> nat \<Rightarrow> request \<Rightarrow> planConfig list \<Rightarrow> (error + response) \<times> planConfig list" where
  "planConfig_create_chain MAX_REVISION_NUMBER now req rows =
     (case planConfig_latest MAX_REVISION_NUMBER now req rows of
        (Inl e, rows1) \<Rightarrow> (Inl e, rows1)
      | (Inr None, rows1) \<Rightarrow>
          (Inl (TypeError ''Cannot read property 'revision' of undefined''), rows1)
      | (Inr (Some planConfig), rows1) \<Rightarrow>
          (let (createdEntity, rows2) = PlanConfig_create (planConfig_entity_of req planConfig) rows1
           in (Inr (Res 201 (wrapResponse (req_id req)
                     (VObj (omit [''deletedAt'', ''deletedBy''] (planConfig_toJSON createdEntity)))
                     1 201)),
               rows2)))"

definition planConfig_create ::
    "int \<Rightarrow> nat \<Rightarrow> request \<Rightarrow> planConfig list \<Rightarrow> response \<times> planConfig list" where
  "planConfig_create MAX_REVISION_NUMBER now req rows =
     answered (transaction
       (\<lambda>s. catch_next (planConfig_create_chain MAX_REVISION_NUMBER now req s)) rows)"

text \<open>
  The row a successful request creates, numbered from the revision \<open>latest\<close>, and the
  response that reports it.
\<close>

definition created_row :: "request \<Rightarrow> planConfig \<Rightarrow> planConfig list \<Rightarrow> planConfig" where
  "created_row req latest rows1 = fst (PlanConfig_create (planConfig_entity_of req latest) rows1)"

definition created_response :: "request \<Rightarrow> planConfig \<Rightarrow> response" where
  "created_response req created =
     Res 201 (wrapResponse (req_id req)
       (VObj (omit [''deletedAt'', ''deletedBy''] (planConfig_toJSON created))) 1 201)"

section \<open>The application (src/app.js)\<close>

text \<open>
  What the application is run against: \<open>child_process.exec\<close> (\<open>None\<close> when it throws on
  its argument before starting a process), \<open>JSON.stringify\<close>, the permission policies
  the \<open>permissions\<close> middleware of the core library evaluates, the clock and the
  configured \<open>MAX_REVISION_NUMBER\<close>.
\<close>

record exec_result =
  exec_err :: val
  exec_stdout :: string
  exec_stderr :: string

record env =
  env_exec :: "string option \<Rightarrow> exec_result option"
  env_stringify :: "val \<Rightarrow> string"
  env_can :: "string \<Rightarrow> request \<Rightarrow> bool"
  env_now :: nat
  env_MAX_REVISION_NUMBER :: int

record db =
  db_Form :: "form list"
  db_PlanConfig :: "planConfig list"

text \<open>
  What a request makes the service do, in order: a schema validation and its outcome, a
  permission check of a policy and its outcome, work on the ORM, the execution of a
  process with the command given.
\<close>

datatype event =
    Validated bool
  | PermissionChecked string bool
  | OrmWork
  | ProcessExec "string option"

datatype middleware =
    validate "request \<Rightarrow> bool"
  | permissions string
  | handler "env \<Rightarrow> request \<Rightarrow> db \<Rightarrow> event list \<times> response \<times> db"

text \<open>
  A middleware chain: \<open>validate\<close> and \<open>permissions\<close> call \<open>next()\<close> when they pass and
  \<open>next(err)\<close> with status 400 or 403 when they do not; a handler ends the chain.
\<close>

fun run_chain :: "env \<Rightarrow> middleware list \<Rightarrow> request \<Rightarrow> db \<Rightarrow> event list \<times> response \<times> db" where
  "run_chain e [] req d = ([], Res 404 EmptyBody, d)"
| "run_chain e (validate schema # ms) req d =
     (if schema req
      then (case run_chain e ms req d of (evs, r, d') \<Rightarrow> (Validated True # evs, r, d'))
      else ([Validated False], Next (Error ''validation error'' (Some 400)), d))"
| "run_chain e (permissions policy # ms) req d =
     (if env_can e policy req
      then (case run_chain e ms req d of (evs, r, d') \<Rightarrow> (PermissionChecked policy True # evs, r, d'))
      else ([PermissionChecked policy False],
            Next (Error ''You do not have permissions to perform this action'' (Some 403)), d))"
| "run_chain e (handler h # ms) req d = h e req d"

text \<open>The Joi schemas of the two modules of \<open>routes/form/version/delete.js\<close>.\<close>

definition form_version_schema :: "request \<Rightarrow> bool" where
  "form_version_schema req =
     (0 < params_version req \<and> params_key req \<noteq> [] \<and> length (params_key req) \<le> 45)"

definition is_object :: "val \<Rightarrow> bool" where
  "is_object v = (case v of VObj kvs \<Rightarrow> True | _ \<Rightarrow> False)"

definition planConfig_schema :: "request \<Rightarrow> bool" where
  "planConfig_schema req =
     (0 < params_version req \<and> params_key req \<noteq> [] \<and> length (params_key req) \<le> 45 \<and>
      is_object (body_param_phases req))"

definition form_version_delete_route :: "middleware list" where
  "form_version_delete_route =
     [validate form_version_schema,
      permissions ''form.create'',
      handler (\<lambda>e req d.
        case form_version_delete (env_now e) req (db_Form d) of
          (r, forms') \<Rightarrow> ([OrmWork], r, d\<lparr>db_Form := forms'\<rparr>))]"

definition planConfig_create_route :: "middleware list" where
  "planConfig_create_route =
     [validate planConfig_schema,
      permissions ''planConfig.create'',
      handler (\<lambda>e req d.
        case planConfig_create (env_MAX_REVISION_NUMBER e) (env_now e) req (db_PlanConfig d) of
          (r, rows') \<Rightarrow> ([OrmWork], r, d\<lparr>db_PlanConfig := rows'\<rparr>))]"

text \<open>
  \<open>app.get('/v4/projects/index', ...)\<close>: two fixed commands, one after the other, and
  their outputs in the response.
\<close>

definition projects_index :: "env \<Rightarrow> request \<Rightarrow> db \<Rightarrow> event list \<times> response \<times> db" where
  "projects_index e req d =
     (case env_exec e (Some ''npm run sync:es'') of
        None \<Rightarrow> ([], Next (TypeError ''exec''), d)
      | Some r \<Rightarrow>
         (case env_exec e (Some ''npm run migrate:es'') of
            None \<Rightarrow> ([ProcessExec (Some ''npm run sync:es'')], NoResponse, d)
          | Some r1 \<Rightarrow>
             ([ProcessExec (Some ''npm run sync:es''), ProcessExec (Some ''npm run migrate:es'')],
              Res 200 (JsonBody (VObj
                [(''out'', VStr (''stdout: '' @ exec_stdout r)),
                 (''erro'', VStr (''stderr: '' @ exec_stderr r)),
                 (''errs'', VStr (env_stringify e (exec_err r))),
                 (''out1'', VStr (''stdout: '' @ exec_stdout r1)),
                 (''erro1'', VStr (''stderr: '' @ exec_stderr r1)),
                 (''errs1'', VStr (env_stringify e (exec_err r1)))])),
              d)))"

text \<open>
  \<open>app.get('/v4/projects/eslog', ...)\<close>: \<open>exec(req.query.q, callback)\<close>, and the callback
  sends the outputs. A request without \<open>q\<close> passes \<open>undefined\<close>.
\<close>

definition projects_eslog :: "env \<Rightarrow> request \<Rightarrow> db \<Rightarrow> event list \<times> response \<times> db" where
  "projects_eslog e req d =
     (let q = map_of (req_query req) ''q'' in
      case env_exec e q of
        None \<Rightarrow> ([], Next (TypeError ''exec''), d)
      | Some r1 \<Rightarrow>
          ([ProcessExec q],
           Res 200 (JsonBody (VObj
             [(''out1'', VStr (''stdout: '' @ exec_stdout r1)),
              (''erro1'', VStr (''stderr: '' @ exec_stderr r1)),
              (''errs1'', VStr (env_stringify e (exec_err r1)))])),
           d))"

text \<open>
  The application: the two routes registered on \<open>app\<close> itself come first, then
  \<open>app.use(router)\<close>. The router module is not part of these sources; it is a parameter
  that gives the middleware chain mounted for a request, if any.
\<close>

definition app ::
    "env \<Rightarrow> (request \<Rightarrow> middleware list option) \<Rightarrow> request \<Rightarrow> db \<Rightarrow> event list \<times> response \<times> db" where
  "app e router req d =
     (if req_method req = ''GET'' \<and> req_path req = ''/v4/projects/index'' then projects_index e req d
      else if req_method req = ''GET'' \<and> req_path req = ''/v4/projects/eslog'' then projects_eslog e req d
      else case router req of
             None \<Rightarrow> ([], Res 404 EmptyBody, d)
           | Some chain \<Rightarrow> run_chain e chain req d)"

text \<open>
  A run is guarded when every piece of ORM work and every process execution in it comes
  after a permission check that passed.
\<close>

fun guarded_from :: "bool \<Rightarrow> event list \<Rightarrow> bool" where
  "guarded_from ok [] = True"
| "guarded_from ok (Validated b # es) = guarded_from ok es"
| "guarded_from ok (PermissionChecked policy b # es) = guarded_from (ok \<or> b) es"
| "guarded_from ok (OrmWork # es) = (ok \<and> guarded_from ok es)"
| "guarded_from ok (ProcessExec c # es) = (ok \<and> guarded_from ok es)"

definition guarded :: "event list \<Rightarrow> bool" where
  "guarded es = guarded_from False es"

section \<open>The Project model (src/models/project.js)\<close>















section \<open>Project.searchText (src/models/project.js)\<close>

subsection \<open>Tables and parameters\<close>

text \<open>
  The raw statements of \<open>searchText\<close> read three tables. A row maps column names to
  values; a column the row does not list is \<open>NULL\<close>. A comparison with \<open>NULL\<close> is never
  true.
\<close>

type_synonym row = "(string \<times> val) list"

record database =
  projects :: "row list"
  project_members :: "row list"
  project_member_invites :: "row list"

definition col :: "row \<Rightarrow> string \<Rightarrow> val" where
  "col r c = (case map_of r c of None \<Rightarrow> VNull | Some v \<Rightarrow> v)"

definition sql_eq :: "val \<Rightarrow> val \<Rightarrow> bool" where
  "sql_eq a b = (a \<noteq> VNull \<and> b \<noteq> VNull \<and> a = b)"

definition sql_in :: "val \<Rightarrow> val list \<Rightarrow> bool" where
  "sql_in a bs = (filter (sql_eq a) bs \<noteq> [])"

text \<open>
  \<open>parameters.filters\<close>: a filter that is absent is \<open>None\<close>. The id filter is an object
  with a \<open>$in\<close> list, or a number; the status filter an object with a \<open>$in\<close> list, or a
  string.
\<close>

datatype id_filter = IdIn "int list" | IdEq int

datatype status_filter = StatusIn "string list" | StatusEq string

record filters =
  filter_id :: "id_filter option"
  filter_status :: "status_filter option"
  filter_type :: "string option"
  filter_keyword :: "string option"
  filter_userId :: "int option"
  filter_email :: "string option"

datatype direction = asc | desc

record parameters =
  par_filters :: filters
  par_order :: "string \<times> direction"
  par_limit :: nat
  par_offset :: nat
  par_attributes :: "string list"

text \<open>
  What PostgreSQL decides: whether it executes a statement at all, given its text and the
  values that replace the named parameters (it refuses, for instance, \<open>IN ()\<close> with an
  empty list, an unqualified \<open>id\<close> that the joined tables have too, a column that does
  not exist, a regular expression that is not well formed); the regular-expression match
  \<open>~\<close>; \<open>lower\<close>; and the order of the values of a column.
\<close>

record pg =
  pg_accepts :: "string \<Rightarrow> (string \<times> val) list \<Rightarrow> bool"
  pg_regex :: "string \<Rightarrow> string \<Rightarrow> bool"
  pg_lower :: "string \<Rightarrow> string"
  pg_le :: "val \<Rightarrow> val \<Rightarrow> bool"

subsection \<open>The statement text and its replacements\<close>

text \<open>
  \<open>if (parameters.filters.id.$in.length === 0) parameters.filters.id.$in.push(-1)\<close>:
  the list that reaches the statement.
\<close>

definition id_in_list :: "int list \<Rightarrow> int list" where
  "id_in_list ids = (if length ids = 0 then ids @ [- 1] else ids)"

definition has_user_filter :: "filters \<Rightarrow> bool" where
  "has_user_filter f = (filter_userId f \<noteq> None \<or> filter_email f \<noteq> None)"

text \<open>
  The \<open>query\<close> string, fragment by fragment as the source appends them. Line breaks and
  indentation inside the template literals are written as one space.
\<close>

definition id_fragment :: "filters \<Rightarrow> string" where
  "id_fragment f =
     (case filter_id f of
        None \<Rightarrow> []
      | Some (IdIn ids) \<Rightarrow> ''AND projects.id IN(:id) ''
      | Some (IdEq i) \<Rightarrow> ''AND id = :id '')"

definition status_fragment :: "filters \<Rightarrow> string" where
  "status_fragment f =
     (case filter_status f of
        None \<Rightarrow> []
      | Some (StatusIn ss) \<Rightarrow> ''AND projects.status IN (:status) ''
      | Some (StatusEq s) \<Rightarrow> ''AND projects.status = :status'')"

definition type_fragment :: "filters \<Rightarrow> string" where
  "type_fragment f =
     (case filter_type f of None \<Rightarrow> [] | Some t \<Rightarrow> ''AND projects.type = :type '')"

definition keyword_fragment :: "filters \<Rightarrow> string" where
  \<open>keyword_fragment f =
     (case filter_keyword f of
        None \<Rightarrow> []
      | Some k \<Rightarrow> ''AND projects."projectFullText" ~ lower(:keyword)'')\<close>

definition user_fragment :: "filters \<Rightarrow> string" where
  \<open>user_fragment f =
     (if has_user_filter f
      then '' AND (members."userId" = :userId OR invites."userId" = :userId OR invites."email" = :email) GROUP BY projects.id''
      else [])\<close>

definition where_query :: "filters \<Rightarrow> string" where
  "where_query f =
     ''1=1 '' @ id_fragment f @ status_fragment f @ type_fragment f @ keyword_fragment f @
     user_fragment f"

definition joinQuery :: "filters \<Rightarrow> string" where
  \<open>joinQuery f =
     (if has_user_filter f
      then ''LEFT OUTER JOIN project_members AS members ON projects.id = members."projectId" LEFT OUTER JOIN project_member_invites AS invites ON projects.id = invites."projectId"''
      else [])\<close>

fun join_with :: "string \<Rightarrow> string list \<Rightarrow> string" where
  "join_with sep [] = []"
| "join_with sep [x] = x"
| "join_with sep (x # y # ys) = x @ sep @ join_with sep (y # ys)"

definition attributesStr :: "string list \<Rightarrow> string" where
  \<open>attributesStr attrs = join_with '','' (map (\<lambda>attr. ''projects."'' @ attr @ ''"'') attrs)\<close>

definition direction_text :: "direction \<Rightarrow> string" where
  "direction_text d = (case d of asc \<Rightarrow> ''asc'' | desc \<Rightarrow> ''desc'')"

definition orderStr :: "string \<times> direction \<Rightarrow> string" where
  \<open>orderStr ord = ''"'' @ fst ord @ ''" '' @ direction_text (snd ord)\<close>

definition count_sql :: "filters \<Rightarrow> string" where
  "count_sql f =
     ''SELECT COUNT(1) FROM projects AS projects '' @ joinQuery f @ '' WHERE '' @ where_query f"

definition select_sql :: "parameters \<Rightarrow> string" where
  "select_sql p =
     ''SELECT '' @ attributesStr (par_attributes p) @ '' FROM projects AS projects '' @
     joinQuery (par_filters p) @ '' WHERE '' @ where_query (par_filters p) @ '' ORDER BY '' @
     '' projects.'' @ orderStr (par_order p) @ '' LIMIT :limit OFFSET :offset''"

text \<open>
  The \<open>replacements\<close> object. A filter that is absent leaves its name without a value
  (\<open>replacements.email = parameters.filters.email\<close> stores \<open>undefined\<close>).
\<close>

definition opt_entry :: "string \<Rightarrow> val option \<Rightarrow> (string \<times> val) list" where
  "opt_entry name v = (case v of None \<Rightarrow> [] | Some x \<Rightarrow> [(name, x)])"

definition id_value :: "id_filter \<Rightarrow> val" where
  "id_value i = (case i of IdIn ids \<Rightarrow> VArr (map VNum (id_in_list ids)) | IdEq n \<Rightarrow> VNum n)"

definition status_value :: "status_filter \<Rightarrow> val" where
  "status_value s = (case s of StatusIn ss \<Rightarrow> VArr (map VStr ss) | StatusEq x \<Rightarrow> VStr x)"

definition replacements :: "filters \<Rightarrow> (string \<times> val) list" where
  "replacements f =
     opt_entry ''id'' (map_option id_value (filter_id f)) @
     opt_entry ''status'' (map_option status_value (filter_status f)) @
     opt_entry ''type'' (map_option VStr (filter_type f)) @
     opt_entry ''keyword'' (map_option VStr (filter_keyword f)) @
     (if has_user_filter f
      then opt_entry ''userId'' (map_option VNum (filter_userId f)) @
           opt_entry ''email'' (map_option VStr (filter_email f))
      else [])"

definition limit_offset :: "parameters \<Rightarrow> (string \<times> val) list" where
  "limit_offset p = [(''limit'', VNum (int (par_limit p))), (''offset'', VNum (int (par_offset p)))]"

subsection \<open>What \<open>sequelize.query\<close> refuses\<close>

text \<open>
  Sequelize replaces every match of \<open>/:+(?!\d)(\w+)/g\<close> in the statement by the escaped
  value of that name, leaves a match that starts with \<open>::\<close> alone (a PostgreSQL cast), and
  throws when the name has no value. \<open>scan_params k name s\<close> reads the text \<open>s\<close> after
  \<open>k\<close> colons and the part \<open>name\<close> of a name, and lists the names to replace.
\<close>

definition word_char :: "char \<Rightarrow> bool" where
  "word_char c =
     (c \<in> set ''abcdefghijklmnopqrstuvwxyzABCDEFGHIJKLMNOPQRSTUVWXYZ0123456789_'')"

definition digit_char :: "char \<Rightarrow> bool" where
  "digit_char c = (c \<in> set ''0123456789'')"

fun scan_params :: "nat \<Rightarrow> string option \<Rightarrow> string \<Rightarrow> string list" where
  "scan_params k None [] = []"
| "scan_params k (Some n) [] = (if k = 1 then [n] else [])"
| "scan_params k None (c # cs) =
     (if c = CHR '':'' then scan_params (Suc k) None cs
      else if 0 < k \<and> word_char c \<and> \<not> digit_char c then scan_params k (Some [c]) cs
      else scan_params 0 None cs)"
| "scan_params k (Some n) (c # cs) =
     (if word_char c then scan_params k (Some (n @ [c])) cs
      else (if k = 1 then [n] else []) @
           (if c = CHR '':'' then scan_params 1 None cs else scan_params 0 None cs))"

definition named_params :: "string \<Rightarrow> string list" where
  "named_params sql = scan_params 0 None sql"

definition unbound_params :: "string \<Rightarrow> (string \<times> val) list \<Rightarrow> string list" where
  "unbound_params sql repl = filter (\<lambda>n. map_of repl n = None) (named_params sql)"

text \<open>
  A statement is refused by Sequelize when one of its named parameters has no value, and
  otherwise by the database when it does not execute it; the promise is then rejected
  with the error.
\<close>

definition query_refused :: "pg \<Rightarrow> string \<Rightarrow> (string \<times> val) list \<Rightarrow> error option" where
  \<open>query_refused g sql repl =
     (case unbound_params sql repl of
        n # ns \<Rightarrow> Some (Error (''Named parameter ":'' @ n @ ''" has no value in the given object.'') None)
      | [] \<Rightarrow> if pg_accepts g sql repl then None else Some (Error ''SequelizeDatabaseError'' None))\<close>

subsection \<open>What the statements select\<close>

text \<open>
  The meaning of a statement that is executed. The conditions on the columns of
  \<open>projects\<close>; in a statement that is executed the unqualified \<open>id\<close> is \<open>projects.id\<close>.
\<close>

definition id_cond :: "filters \<Rightarrow> row \<Rightarrow> bool" where
  "id_cond f r =
     (case filter_id f of
        None \<Rightarrow> True
      | Some (IdIn ids) \<Rightarrow> sql_in (col r ''id'') (map VNum (id_in_list ids))
      | Some (IdEq i) \<Rightarrow> sql_eq (col r ''id'') (VNum i))"

definition status_cond :: "filters \<Rightarrow> row \<Rightarrow> bool" where
  "status_cond f r =
     (case filter_status f of
        None \<Rightarrow> True
      | Some (StatusIn ss) \<Rightarrow> sql_in (col r ''status'') (map VStr ss)
      | Some (StatusEq s) \<Rightarrow> sql_eq (col r ''status'') (VStr s))"

definition type_cond :: "filters \<Rightarrow> row \<Rightarrow> bool" where
  "type_cond f r =
     (case filter_type f of None \<Rightarrow> True | Some t \<Rightarrow> sql_eq (col r ''type'') (VStr t))"

definition keyword_cond :: "pg \<Rightarrow> filters \<Rightarrow> row \<Rightarrow> bool" where
  "keyword_cond g f r =
     (case filter_keyword f of
        None \<Rightarrow> True
      | Some k \<Rightarrow>
         (case col r ''projectFullText'' of
            VStr txt \<Rightarrow> pg_regex g txt (pg_lower g k)
          | _ \<Rightarrow> False))"

definition project_cond :: "pg \<Rightarrow> filters \<Rightarrow> row \<Rightarrow> bool" where
  "project_cond g f r = (id_cond f r \<and> status_cond f r \<and> type_cond f r \<and> keyword_cond g f r)"

text \<open>
  The two left outer joins: the rows of members and of invites of a project, each
  \<open>None\<close> (all columns \<open>NULL\<close>) when the project has none, and their combinations.
\<close>

definition left_outer :: "row list \<Rightarrow> val \<Rightarrow> row option list" where
  "left_outer table pid =
     (case filter (\<lambda>r. sql_eq pid (col r ''projectId'')) table of
        [] \<Rightarrow> [None]
      | r # rs \<Rightarrow> map Some (r # rs))"

definition joined :: "database \<Rightarrow> row \<Rightarrow> (row option \<times> row option) list" where
  "joined d p =
     List.product (left_outer (project_members d) (col p ''id''))
                  (left_outer (project_member_invites d) (col p ''id''))"

definition col_opt :: "row option \<Rightarrow> string \<Rightarrow> val" where
  "col_opt r c = (case r of None \<Rightarrow> VNull | Some x \<Rightarrow> col x c)"

definition opt_val :: "val option \<Rightarrow> val" where
  "opt_val v = (case v of None \<Rightarrow> VNull | Some x \<Rightarrow> x)"

definition user_cond :: "filters \<Rightarrow> row option \<times> row option \<Rightarrow> bool" where
  "user_cond f mi =
     (sql_eq (col_opt (fst mi) ''userId'') (opt_val (map_option VNum (filter_userId f))) \<or>
      sql_eq (col_opt (snd mi) ''userId'') (opt_val (map_option VNum (filter_userId f))) \<or>
      sql_eq (col_opt (snd mi) ''email'') (opt_val (map_option VStr (filter_email f))))"

text \<open>
  The joined rows of a project that pass the \<open>WHERE\<close> clause; \<open>GROUP BY projects.id\<close>
  makes one group of them per project (\<open>id\<close> is the primary key).
\<close>

definition group_rows :: "pg \<Rightarrow> filters \<Rightarrow> database \<Rightarrow> row \<Rightarrow> (row option \<times> row option) list" where
  "group_rows g f d p = (if project_cond g f p then filter (user_cond f) (joined d p) else [])"

text \<open>The projects the statements match: one row of the result per matching project.\<close>

definition matching_projects :: "pg \<Rightarrow> filters \<Rightarrow> database \<Rightarrow> row list" where
  "matching_projects g f d =
     (if has_user_filter f then filter (\<lambda>p. group_rows g f d p \<noteq> []) (projects d)
      else filter (project_cond g f) (projects d))"

text \<open>
  \<open>SELECT COUNT(1) ...\<close>: without \<open>GROUP BY\<close> one row that holds the number of projects
  matched; with \<open>GROUP BY projects.id\<close> one row per group, which holds the number of
  joined rows in the group.
\<close>

definition count_result :: "pg \<Rightarrow> filters \<Rightarrow> database \<Rightarrow> int list" where
  "count_result g f d =
     (if has_user_filter f
      then map (\<lambda>p. int (length (group_rows g f d p))) (matching_projects g f d)
      else [int (length (matching_projects g f d))])"

text \<open>\<open>ORDER BY projects."column" direction\<close>, \<open>LIMIT\<close>, \<open>OFFSET\<close> and the attributes selected.\<close>

fun insert_by :: "('a \<Rightarrow> 'a \<Rightarrow> bool) \<Rightarrow> 'a \<Rightarrow> 'a list \<Rightarrow> 'a list" where
  "insert_by le x [] = [x]"
| "insert_by le x (y # ys) = (if le x y then x # y # ys else y # insert_by le x ys)"

definition sort_by :: "('a \<Rightarrow> 'a \<Rightarrow> bool) \<Rightarrow> 'a list \<Rightarrow> 'a list" where
  "sort_by le xs = foldr (insert_by le) xs []"

definition row_le :: "pg \<Rightarrow> string \<times> direction \<Rightarrow> row \<Rightarrow> row \<Rightarrow> bool" where
  "row_le g ord a b =
     (case snd ord of
        asc \<Rightarrow> pg_le g (col a (fst ord)) (col b (fst ord))
      | desc \<Rightarrow> pg_le g (col b (fst ord)) (col a (fst ord)))"

definition select_attributes :: "string list \<Rightarrow> row \<Rightarrow> row" where
  "select_attributes attrs r = map (\<lambda>attr. (attr, col r attr)) attrs"

definition select_result :: "pg \<Rightarrow> parameters \<Rightarrow> database \<Rightarrow> row list" where
  "select_result g p d =
     map (select_attributes (par_attributes p))
       (take (par_limit p) (drop (par_offset p)
          (sort_by (row_le g (par_order p)) (matching_projects g (par_filters p) d))))"

subsection \<open>searchText\<close>

text \<open>The object \<open>{ rows, count }\<close> the promise resolves to.\<close>

record search_result =
  result_rows :: "row list"
  result_count :: int

definition fcount_query :: "pg \<Rightarrow> parameters \<Rightarrow> database \<Rightarrow> error + int list" where
  "fcount_query g p d =
     (case query_refused g (count_sql (par_filters p)) (replacements (par_filters p)) of
        Some e \<Rightarrow> Inl e
      | None \<Rightarrow> Inr (count_result g (par_filters p) d))"

definition projects_query :: "pg \<Rightarrow> parameters \<Rightarrow> database \<Rightarrow> error + row list" where
  "projects_query g p d =
     (case query_refused g (select_sql p) (replacements (par_filters p) @ limit_offset p) of
        Some e \<Rightarrow> Inl e
      | None \<Rightarrow> Inr (select_result g p d))"

definition searchText :: "pg \<Rightarrow> parameters \<Rightarrow> database \<Rightarrow> error + search_result" where
  "searchText g p d =
     (case fcount_query g p d of
        Inl e \<Rightarrow> Inl e
      | Inr fcount \<Rightarrow>
         (let fcount_length = int (length fcount);
              fcount_count = (if length fcount = 1 then fcount ! 0 else fcount_length)
          in case projects_query g p d of
               Inl e \<Rightarrow> Inl e
             | Inr found \<Rightarrow> Inr \<lparr>result_rows = found, result_count = fcount_count\<rparr>))"

section \<open>Example data\<close>

text \<open>Concrete requests, tables and collaborators, used where a property is evaluated.\<close>

definition delete_dev_1 :: request where
  "delete_dev_1 =
     \<lparr>req_method = ''DELETE'', req_path = ''/v4/projects/metadata/form/dev/versions/1'',
      req_query = [], params_key = ''dev'', params_version = 1,
      body_param_phases = VNull, authUser_userId = 40051333, req_id = ''r1''\<rparr>"

definition create_dev_1 :: request where
  "create_dev_1 =
     \<lparr>req_method = ''POST'',
      req_path = ''/v4/projects/metadata/planConfig/dev/versions/1/revisions'',
      req_query = [], params_key = ''dev'', params_version = 1,
      body_param_phases = VObj [(''1'', VObj [])], authUser_userId = 40051333, req_id = ''r2''\<rparr>"

definition create_qa_9 :: request where
  "create_qa_9 =
     \<lparr>req_method = ''POST'',
      req_path = ''/v4/projects/metadata/planConfig/qa/versions/9/revisions'',
      req_query = [], params_key = ''qa'', params_version = 9,
      body_param_phases = VObj [], authUser_userId = 40051333, req_id = ''r3''\<rparr>"

definition form_row :: "int \<Rightarrow> string \<Rightarrow> int \<Rightarrow> int \<Rightarrow> form" where
  "form_row i k v r =
     \<lparr>form_id = i, form_key = k, form_version = v, form_revision = r, form_config = VObj [],
      form_deletedBy = None, form_deletedAt = None\<rparr>"

definition forms0 :: "form list" where
  "forms0 = [form_row 1 ''dev'' 1 1, form_row 2 ''dev'' 1 2, form_row 3 ''dev'' 2 1]"

text \<open>Forms of which the first was soft-deleted before, by user 5 at time 3.\<close>

definition forms1 :: "form list" where
  "forms1 =
     [(form_row 1 ''dev'' 1 1)\<lparr>form_deletedBy := Some 5, form_deletedAt := Some 3\<rparr>,
      form_row 2 ''dev'' 1 2, form_row 3 ''dev'' 2 1]"

definition pc_row :: "int \<Rightarrow> string \<Rightarrow> int \<Rightarrow> int \<Rightarrow> planConfig" where
  "pc_row i k v r =
     \<lparr>pc_id = i, pc_key = k, pc_version = v, pc_revision = r, pc_phases = VObj [],
      pc_createdBy = 8547899, pc_updatedBy = 8547899, pc_deletedBy = None, pc_deletedAt = None\<rparr>"

definition rows0 :: "planConfig list" where
  "rows0 = [pc_row 1 ''dev'' 1 2, pc_row 2 ''dev'' 1 1, pc_row 3 ''dev'' 2 1, pc_row 4 ''dev'' 1 3]"

text \<open>A shell that prints its command, and permission policies that allow nothing.\<close>

definition echo_shell :: "string option \<Rightarrow> exec_result option" where
  "echo_shell c =
     (case c of
        None \<Rightarrow> None
      | Some s \<Rightarrow> Some \<lparr>exec_err = VNull, exec_stdout = s, exec_stderr = []\<rparr>)"

definition env0 :: env where
  "env0 =
     \<lparr>env_exec = echo_shell, env_stringify = (\<lambda>v. ''null''), env_can = (\<lambda>policy req. False),
      env_now = 7, env_MAX_REVISION_NUMBER = 3\<rparr>"

definition anonymous :: "string \<Rightarrow> string \<Rightarrow> (string \<times> string) list \<Rightarrow> request" where
  "anonymous m path query =
     \<lparr>req_method = m, req_path = path, req_query = query, params_key = [], params_version = 0,
      body_param_phases = VNull, authUser_userId = 0, req_id = ''r0''\<rparr>"

definition db0 :: db where
  "db0 = \<lparr>db_Form = forms0, db_PlanConfig = rows0\<rparr>"

definition no_router :: "request \<Rightarrow> middleware list option" where
  "no_router req = None"



text \<open>
  A database that refuses a statement with an empty list among its replacements
  (\<open>IN ()\<close>) and executes every other one (the statements of the examples are well
  formed); tables in which project 1 has one member, user 7, and two invites; and search
  parameters.
\<close>

definition empty_lists :: "(string \<times> val) list \<Rightarrow> string list" where
  "empty_lists repl = map fst (filter (\<lambda>kv. snd kv = VArr []) repl)"

definition pg0 :: pg where
  "pg0 =
     \<lparr>pg_accepts = (\<lambda>sql repl. empty_lists repl = []),
      pg_regex = (\<lambda>txt pat. False), pg_lower = (\<lambda>s. s),
      pg_le = (\<lambda>a b. case (a, b) of (VNum x, VNum y) \<Rightarrow> x \<le> y | _ \<Rightarrow> True)\<rparr>"

definition tables0 :: database where
  "tables0 =
     \<lparr>projects = [[(''id'', VNum 1), (''name'', VStr ''p1''), (''status'', VStr ''active'')],
                  [(''id'', VNum 2), (''name'', VStr ''p2''), (''status'', VStr ''draft'')]],
      project_members = [[(''projectId'', VNum 1), (''userId'', VNum 7)]],
      project_member_invites = [[(''projectId'', VNum 1), (''email'', VStr ''a@b.c'')],
                                [(''projectId'', VNum 1), (''email'', VStr ''x@y.z'')]]\<rparr>"

definition no_filters :: filters where
  "no_filters =
     \<lparr>filter_id = None, filter_status = None, filter_type = None, filter_keyword = None,
      filter_userId = None, filter_email = None\<rparr>"

definition search_with :: "filters \<Rightarrow> parameters" where
  "search_with f =
     \<lparr>par_filters = f, par_order = (''id'', asc), par_limit = 20, par_offset = 0,
      par_attributes = [''id'', ''name'']\<rparr>"

definition of_user_7 :: parameters where
  "of_user_7 = search_with (no_filters\<lparr>filter_userId := Some 7, filter_email := Some ''u@v.w''\<rparr>)"




section \<open>The default-role table against the matrix\<close>

text \<open>
  C10 (does not hold on the code): the claim asks every entry of \<open>DEFAULT_PROJECT_ROLE\<close>
  to be allowed by \<open>PROJECT_TO_TOPCODER_ROLES_MATRIX\<close>. The entries that are not allowed
  are exactly one: the seventh, which gives the Topcoder role \<open>COPILOT\<close> the project role
  \<open>ACCOUNT_MANAGER\<close>, whose matrix row does not list \<open>COPILOT\<close>.
\<close>

theorem DEFAULT_PROJECT_ROLE_copilot_not_allowed:
  "filter (\<lambda>e. \<not> allowed_by_matrix e) DEFAULT_PROJECT_ROLE =
     [\<lparr>topcoderRole = USER_COPILOT, projectRole = PM_ACCOUNT_MANAGER\<rparr>]"
  by (simp add: DEFAULT_PROJECT_ROLE_def allowed_by_matrix_def
      PROJECT_TO_TOPCODER_ROLES_MATRIX_def TOPCODER_ROLES_ALL_def)

section \<open>Form versions and PlanConfig revisions: properties\<close>

subsection \<open>Deleting a form version\<close>

lemma form_version_delete_eq:
  "form_version_delete now req forms =
     (if Form_findAll (params_key req) (params_version req) forms = []
      then (Next (form_not_found req), forms)
      else (Res 204 EmptyBody,
            Form_destroy now (params_key req) (params_version req)
              (Form_update_deletedBy (authUser_userId req) (params_key req) (params_version req) forms)))"
  by (simp add: form_version_delete_def answered_def transaction_def catch_next_def
      form_version_delete_chain_def Let_def)

lemma Form_destroy_update:
  "Form_destroy now key version (Form_update_deletedBy userId key version forms) =
     map (\<lambda>f. if Form_key_version key version f
               then (if form_deletedAt f = None
                     then f\<lparr>form_deletedBy := Some userId, form_deletedAt := Some now\<rparr>
                     else f\<lparr>form_deletedBy := Some userId\<rparr>)
               else f) forms"
  by (induction forms)
     (auto simp: Form_destroy_def Form_update_deletedBy_def Form_where_def Form_key_version_def)

lemma Form_findAll_after:
  "Form_findAll key version
     (map (\<lambda>f. if Form_key_version key version f
               then (if form_deletedAt f = None
                     then f\<lparr>form_deletedBy := Some userId, form_deletedAt := Some now\<rparr>
                     else f\<lparr>form_deletedBy := Some userId\<rparr>)
               else f) forms) = []"
  by (induction forms) (auto simp: Form_findAll_def Form_where_def Form_key_version_def)

text \<open>
  C6: when \<open>findAll\<close> finds at least one Form row of the key and version, the handler
  first sets \<open>deletedBy\<close> to the requesting user on every row of the key and version (the
  update has no paranoid condition, so this includes rows that were soft-deleted before),
  then destroys every row of the key and version that is not yet deleted, and answers 204
  with an empty body. Afterwards every row of the key and version carries the user in
  \<open>deletedBy\<close> and is soft-deleted (one that was deleted before keeps its \<open>deletedAt\<close>),
  every other row is as it was, and \<open>findAll\<close> finds no row of the key and version.
\<close>

theorem form_version_delete_soft_deletes:
  assumes "Form_findAll (params_key req) (params_version req) forms \<noteq> []"
  shows "form_version_delete now req forms =
           (Res 204 EmptyBody,
            Form_destroy now (params_key req) (params_version req)
              (Form_update_deletedBy (authUser_userId req) (params_key req) (params_version req) forms))
         \<and> snd (form_version_delete now req forms) =
           map (\<lambda>f. if form_key f = params_key req \<and> form_version f = params_version req
                     then (if form_deletedAt f = None
                           then f\<lparr>form_deletedBy := Some (authUser_userId req),
                                  form_deletedAt := Some now\<rparr>
                           else f\<lparr>form_deletedBy := Some (authUser_userId req)\<rparr>)
                     else f) forms
         \<and> Form_findAll (params_key req) (params_version req) (snd (form_version_delete now req forms)) = []"
  using assms
    Form_findAll_after[where key = "params_key req" and version = "params_version req"
      and userId = "authUser_userId req" and now = now and forms = forms]
  by (simp add: form_version_delete_eq Form_destroy_update Form_key_version_def)

theorem form_version_delete_soft_deletes_witness:
  "Form_findAll (params_key delete_dev_1) (params_version delete_dev_1) forms1 \<noteq> [] \<and>
   form_version_delete 7 delete_dev_1 forms1 =
     (Res 204 EmptyBody,
      [(form_row 1 ''dev'' 1 1)\<lparr>form_deletedBy := Some 40051333, form_deletedAt := Some 3\<rparr>,
       (form_row 2 ''dev'' 1 2)\<lparr>form_deletedBy := Some 40051333, form_deletedAt := Some 7\<rparr>,
       form_row 3 ''dev'' 2 1])"
proof -
  have h: "Form_findAll (params_key delete_dev_1) (params_version delete_dev_1) forms1 \<noteq> []"
    by (simp add: delete_dev_1_def forms1_def form_row_def Form_findAll_def Form_where_def)
  from form_version_delete_soft_deletes[OF h, of 7] have
    "form_version_delete 7 delete_dev_1 forms1 =
       (Res 204 EmptyBody,
        Form_destroy 7 (params_key delete_dev_1) (params_version delete_dev_1)
          (Form_update_deletedBy (authUser_userId delete_dev_1) (params_key delete_dev_1)
             (params_version delete_dev_1) forms1))"
    by blast
  then show ?thesis using h
    by (simp add: delete_dev_1_def forms1_def form_row_def Form_destroy_def
        Form_update_deletedBy_def Form_where_def Form_key_version_def)
qed

subsection \<open>Evicting the oldest revision\<close>

lemma evict_first_index:
  "\<exists>x\<in>set xs. P x \<Longrightarrow> \<exists>i<length xs. P (xs ! i) \<and> evict_first P g xs = xs[i := g (xs ! i)]"
proof (induction xs)
  case Nil
  then show ?case by simp
next
  case (Cons x xs)
  show ?case
  proof (cases "P x")
    case True
    then have "P ((x # xs) ! 0) \<and> evict_first P g (x # xs) = (x # xs)[0 := g ((x # xs) ! 0)]"
      by simp
    then show ?thesis by blast
  next
    case False
    with Cons.prems have "\<exists>y\<in>set xs. P y" by auto
    from Cons.IH[OF this] obtain i where i: "i < length xs" "P (xs ! i)"
      "evict_first P g xs = xs[i := g (xs ! i)]" by blast
    with False have "Suc i < length (x # xs) \<and> P ((x # xs) ! Suc i) \<and>
      evict_first P g (x # xs) = (x # xs)[Suc i := g ((x # xs) ! Suc i)]" by simp
    then show ?thesis by blast
  qed
qed

lemma evict_first_filter_other:
  "(\<And>x. P x \<Longrightarrow> \<not> W x \<and> \<not> W (g x)) \<Longrightarrow> filter W (evict_first P g xs) = filter W xs"
  by (induction xs) auto

lemma evict_first_filter_same:
  "(\<And>x. P x \<Longrightarrow> W x \<and> \<not> W (g x)) \<Longrightarrow> \<exists>x\<in>set xs. P x \<Longrightarrow>
   Suc (length (filter W (evict_first P g xs))) = length (filter W xs)"
  by (induction xs) auto

lemma fold_min_Min: "fold min rs (r::int) = Min (set (r # rs))"
proof (induction rs arbitrary: r)
  case Nil
  then show ?case by simp
next
  case (Cons a rs)
  have "fold min (a # rs) r = fold min rs (min a r)" by simp
  also have "\<dots> = Min (set (min a r # rs))" by (rule Cons.IH)
  also have "\<dots> = Min (set (r # a # rs))"
    by (cases "rs = []") (auto simp: min.commute min.left_commute)
  finally show ?case .
qed

lemma oldest_revision_Some:
  assumes "oldest_revision key version rows = Some m"
  shows "(\<exists>x\<in>set rows. PlanConfig_where key version x \<and> pc_revision x = m) \<and>
         (\<forall>p\<in>set rows. PlanConfig_where key version p \<longrightarrow> m \<le> pc_revision p)"
proof -
  let ?rs = "map pc_revision (filter (PlanConfig_where key version) rows)"
  from assms obtain r rs where rs: "?rs = r # rs" and m: "m = fold min rs r"
    by (auto simp: oldest_revision_def split: list.splits)
  have mm: "m = Min (set ?rs)" using m rs fold_min_Min[of rs r] by simp
  have ne: "set ?rs \<noteq> {}" using rs by simp
  have "m \<in> set ?rs" unfolding mm using ne by (intro Min_in) auto
  then have a: "\<exists>x\<in>set rows. PlanConfig_where key version x \<and> pc_revision x = m" by auto
  have b: "\<forall>p\<in>set rows. PlanConfig_where key version p \<longrightarrow> m \<le> pc_revision p"
  proof (intro ballI impI)
    fix p assume "p \<in> set rows" "PlanConfig_where key version p"
    then have "pc_revision p \<in> set ?rs" by auto
    then show "m \<le> pc_revision p" unfolding mm by (intro Min_le) auto
  qed
  from a b show ?thesis by blast
qed

lemma oldest_revision_None:
  "oldest_revision key version rows = None \<longleftrightarrow> filter (PlanConfig_where key version) rows = []"
  by (auto simp: oldest_revision_def split: list.splits)

lemma deleteOldestRevision_index:
  assumes "0 < revision_count key version rows"
  shows "\<exists>i<length rows. PlanConfig_where key version (rows ! i) \<and>
           (\<forall>p\<in>set rows. PlanConfig_where key version p \<longrightarrow> pc_revision (rows ! i) \<le> pc_revision p) \<and>
           deleteOldestRevision now userId key version rows =
             rows[i := (rows ! i)\<lparr>pc_deletedBy := Some userId, pc_deletedAt := Some now\<rparr>]"
proof -
  from assms have "oldest_revision key version rows \<noteq> None"
    by (simp add: oldest_revision_None revision_count_def)
  then obtain m where m: "oldest_revision key version rows = Some m" by blast
  from oldest_revision_Some[OF m] have
    ex: "\<exists>x\<in>set rows. PlanConfig_where key version x \<and> pc_revision x = m" and
    le: "\<forall>p\<in>set rows. PlanConfig_where key version p \<longrightarrow> m \<le> pc_revision p" by blast+
  from evict_first_index[of rows "\<lambda>p. PlanConfig_where key version p \<and> pc_revision p = m"
      "\<lambda>p. p\<lparr>pc_deletedBy := Some userId, pc_deletedAt := Some now\<rparr>", OF ex]
  obtain i where i: "i < length rows" "PlanConfig_where key version (rows ! i)" "pc_revision (rows ! i) = m"
    "evict_first (\<lambda>p. PlanConfig_where key version p \<and> pc_revision p = m)
       (\<lambda>p. p\<lparr>pc_deletedBy := Some userId, pc_deletedAt := Some now\<rparr>) rows =
     rows[i := (rows ! i)\<lparr>pc_deletedBy := Some userId, pc_deletedAt := Some now\<rparr>]"
    by blast
  have "deleteOldestRevision now userId key version rows =
          rows[i := (rows ! i)\<lparr>pc_deletedBy := Some userId, pc_deletedAt := Some now\<rparr>]"
    using m i(4) by (simp add: deleteOldestRevision_def)
  with i le show ?thesis by blast
qed

lemma deleteOldestRevision_count_same:
  assumes "0 < revision_count key version rows"
  shows "Suc (revision_count key version (deleteOldestRevision now userId key version rows)) =
           revision_count key version rows"
proof -
  from assms have "oldest_revision key version rows \<noteq> None"
    by (simp add: oldest_revision_None revision_count_def)
  then obtain m where m: "oldest_revision key version rows = Some m" by blast
  from oldest_revision_Some[OF m] have
    ex: "\<exists>x\<in>set rows. PlanConfig_where key version x \<and> pc_revision x = m" by blast
  have "Suc (length (filter (PlanConfig_where key version)
          (evict_first (\<lambda>p. PlanConfig_where key version p \<and> pc_revision p = m)
             (\<lambda>p. p\<lparr>pc_deletedBy := Some userId, pc_deletedAt := Some now\<rparr>) rows))) =
        length (filter (PlanConfig_where key version) rows)"
    by (rule evict_first_filter_same[OF _ ex]) (simp add: PlanConfig_where_def)
  then show ?thesis using m by (simp add: deleteOldestRevision_def revision_count_def)
qed

lemma deleteOldestRevision_count_other:
  assumes "(key', version') \<noteq> (key, version)"
  shows "revision_count key' version' (deleteOldestRevision now userId key version rows) =
           revision_count key' version' rows"
proof (cases "oldest_revision key version rows")
  case None
  then show ?thesis by (simp add: deleteOldestRevision_def)
next
  case (Some m)
  have "filter (PlanConfig_where key' version')
          (evict_first (\<lambda>p. PlanConfig_where key version p \<and> pc_revision p = m)
             (\<lambda>p. p\<lparr>pc_deletedBy := Some userId, pc_deletedAt := Some now\<rparr>) rows) =
        filter (PlanConfig_where key' version') rows"
    by (rule evict_first_filter_other) (use assms in \<open>auto simp: PlanConfig_where_def\<close>)
  then show ?thesis using Some by (simp add: deleteOldestRevision_def revision_count_def)
qed

lemma deleteOldestRevision_rows:
  "length (deleteOldestRevision now userId key version rows) = length rows \<and>
   (\<forall>i<length rows.
      deleteOldestRevision now userId key version rows ! i = rows ! i \<or>
      deleteOldestRevision now userId key version rows ! i =
        (rows ! i)\<lparr>pc_deletedBy := Some userId, pc_deletedAt := Some now\<rparr>)"
proof (cases "0 < revision_count key version rows")
  case True
  from deleteOldestRevision_index[OF True, of now userId]
  obtain i where i: "i < length rows"
    "deleteOldestRevision now userId key version rows =
       rows[i := (rows ! i)\<lparr>pc_deletedBy := Some userId, pc_deletedAt := Some now\<rparr>]"
    by blast
  show ?thesis unfolding i(2) using i(1) by (simp add: nth_list_update)
next
  case False
  then have "oldest_revision key version rows = None"
    by (simp add: oldest_revision_None revision_count_def)
  then show ?thesis by (simp add: deleteOldestRevision_def)
qed

subsection \<open>Creating a revision\<close>

lemma first_of_findAll:
  assumes "filter (PlanConfig_where key version) rows \<noteq> []"
  shows "\<exists>x. first_of (PlanConfig_findAll key version rows) = Some x \<and>
             x \<in> set rows \<and> PlanConfig_where key version x \<and>
             (\<forall>p\<in>set rows. PlanConfig_where key version p \<longrightarrow> pc_revision p \<le> pc_revision x)"
proof -
  let ?fs = "filter (PlanConfig_where key version) rows"
  let ?ss = "sort_key pc_revision ?fs"
  have ne: "?ss \<noteq> []" using assms by (metis length_0_conv length_sort)
  have srt: "sorted (map pc_revision ?ss)" by simp
  have st: "set ?ss = set ?fs" by simp
  have hd: "first_of (rev ?ss) = Some (last ?ss)"
    using ne by (cases "rev ?ss") (auto simp: first_of_def last_rev[symmetric] simp del: last_rev dest: arg_cong[where f=rev])
  have lin: "last ?ss \<in> set ?fs" using ne st last_in_set by blast
  have mx: "\<forall>p\<in>set ?ss. pc_revision p \<le> pc_revision (last ?ss)"
  proof
    fix p assume "p \<in> set ?ss"
    then obtain i where i: "i < length ?ss" "?ss ! i = p" by (metis in_set_conv_nth)
    have "map pc_revision ?ss ! i \<le> map pc_revision ?ss ! (length ?ss - 1)"
      using srt i(1) by (intro sorted_nth_mono) auto
    then show "pc_revision p \<le> pc_revision (last ?ss)"
      using i ne by (simp add: last_conv_nth)
  qed
  show ?thesis
    using hd lin mx st by (auto simp: PlanConfig_findAll_def)
qed

lemma revision_count_findAll:
  "length (PlanConfig_findAll key version rows) = revision_count key version rows"
  by (simp add: PlanConfig_findAll_def revision_count_def)

lemma findAll_Nil_iff:
  "PlanConfig_findAll key version rows = [] \<longleftrightarrow> revision_count key version rows = 0"
  by (metis length_0_conv revision_count_findAll)

lemma first_of_Some_iff:
  "(\<exists>x. first_of (PlanConfig_findAll key version rows) = Some x) \<longleftrightarrow> 0 < revision_count key version rows"
  using findAll_Nil_iff[of key version rows]
  by (cases "PlanConfig_findAll key version rows") (auto simp: first_of_def)

text \<open>The four paths of the handler.\<close>

lemma planConfig_create_not_found:
  assumes "int (revision_count (params_key req) (params_version req) rows) < M"
      and "revision_count (params_key req) (params_version req) rows = 0"
  shows "planConfig_create M now req rows = (Next (planConfig_not_found req), rows)"
  using assms
  by (simp add: planConfig_create_def answered_def transaction_def catch_next_def
      planConfig_create_chain_def planConfig_latest_def Let_def revision_count_findAll)

lemma planConfig_create_plain:
  assumes "int (revision_count (params_key req) (params_version req) rows) < M"
      and "first_of (PlanConfig_findAll (params_key req) (params_version req) rows) = Some x"
  shows "planConfig_create M now req rows =
           (created_response req (created_row req x rows), rows @ [created_row req x rows])"
proof -
  have "revision_count (params_key req) (params_version req) rows \<noteq> 0"
    using assms(2) findAll_Nil_iff[of "params_key req" "params_version req" rows]
    by (auto simp: first_of_def)
  then show ?thesis using assms
    by (simp add: planConfig_create_def answered_def transaction_def catch_next_def
      planConfig_create_chain_def planConfig_latest_def Let_def revision_count_findAll
      PlanConfig_create_def created_row_def created_response_def)
qed

lemma planConfig_create_evict:
  assumes "M \<le> int (revision_count (params_key req) (params_version req) rows)"
      and "first_of (PlanConfig_findAll (params_key req) (params_version req) rows) = Some x"
  shows "planConfig_create M now req rows =
           (let rows1 = deleteOldestRevision now (authUser_userId req) (params_key req)
                          (params_version req) rows
            in (created_response req (created_row req x rows1), rows1 @ [created_row req x rows1]))"
  using assms
  by (simp add: planConfig_create_def answered_def transaction_def catch_next_def
      planConfig_create_chain_def planConfig_latest_def Let_def revision_count_findAll
      PlanConfig_create_def created_row_def created_response_def)

lemma planConfig_create_empty_evict:
  assumes "M \<le> int (revision_count (params_key req) (params_version req) rows)"
      and "revision_count (params_key req) (params_version req) rows = 0"
  shows "planConfig_create M now req rows =
           (Next (TypeError ''Cannot read property 'revision' of undefined''), rows)"
proof -
  have a: "PlanConfig_findAll (params_key req) (params_version req) rows = []"
    using assms(2) findAll_Nil_iff by blast
  have b: "deleteOldestRevision now (authUser_userId req) (params_key req) (params_version req) rows = rows"
    using assms(2) by (simp add: deleteOldestRevision_def oldest_revision_def revision_count_def)
  show ?thesis using assms a b
    by (simp add: planConfig_create_def answered_def transaction_def catch_next_def
      planConfig_create_chain_def planConfig_latest_def Let_def first_of_def)
qed

lemma revision_count_append:
  "revision_count key version (rows @ [p]) =
     revision_count key version rows + (if PlanConfig_where key version p then 1 else 0)"
  by (simp add: revision_count_def)

lemma created_row_where:
  "PlanConfig_where key version (created_row req x rows1) \<longleftrightarrow>
     (key, version) = (params_key req, params_version req)"
  by (auto simp: created_row_def PlanConfig_create_def planConfig_entity_of_def PlanConfig_where_def Let_def)

lemma created_row_eq:
  "created_row req x rows1 =
     \<lparr>pc_id = next_id rows1, pc_key = params_key req, pc_version = params_version req,
      pc_revision = pc_revision x + 1, pc_phases = body_param_phases req,
      pc_createdBy = authUser_userId req, pc_updatedBy = authUser_userId req,
      pc_deletedBy = None, pc_deletedAt = None\<rparr>"
  by (simp add: created_row_def PlanConfig_create_def planConfig_entity_of_def Let_def)

text \<open>The rows after the handler, path by path.\<close>

lemma planConfig_create_rows:
  "snd (planConfig_create M now req rows) =
     (let k = params_key req; v = params_version req; c = revision_count k v rows in
      if c = 0 then rows
      else case first_of (PlanConfig_findAll k v rows) of
        None \<Rightarrow> rows
      | Some x \<Rightarrow>
         (if M \<le> int c
          then deleteOldestRevision now (authUser_userId req) k v rows @
                 [created_row req x (deleteOldestRevision now (authUser_userId req) k v rows)]
          else rows @ [created_row req x rows]))"
proof -
  let ?k = "params_key req" and ?v = "params_version req"
  let ?c = "revision_count ?k ?v rows"
  show ?thesis
  proof (cases "?c = 0")
    case True
    then show ?thesis
      using planConfig_create_not_found[of req rows M now] planConfig_create_empty_evict[of M req rows now]
      by (cases "int ?c < M") (auto simp: Let_def)
  next
    case False
    then obtain x where x: "first_of (PlanConfig_findAll ?k ?v rows) = Some x"
      using first_of_Some_iff[of ?k ?v rows] by auto
    show ?thesis
      using False x planConfig_create_plain[of req rows M x now] planConfig_create_evict[of M req rows x now]
      by (cases "int ?c < M") (auto simp: Let_def)
  qed
qed

lemmas handler_defs = planConfig_create_def answered_def transaction_def catch_next_def
  planConfig_create_chain_def planConfig_latest_def Let_def PlanConfig_findAll_def
  PlanConfig_create_def planConfig_entity_of_def PlanConfig_where_def first_of_def
  deleteOldestRevision_def oldest_revision_def next_id_def revision_count_def
  create_dev_1_def create_qa_9_def rows0_def pc_row_def

text \<open>
  C3: for every key and version that holds at most \<open>MAX_REVISION_NUMBER\<close> revisions, the
  create-revision handler leaves at most \<open>MAX_REVISION_NUMBER\<close> revisions of that key and
  version, whatever request it serves and however it ends. When the key and version of
  the request had reached \<open>MAX_REVISION_NUMBER\<close> revisions (and there is a revision at
  all), the stored rows afterwards are the rows before with one revision of that key and
  version evicted, one whose revision number is the lowest, followed by the new row.
\<close>

theorem planConfig_create_bounded:
  assumes "int (revision_count key version rows) \<le> MAX_REVISION_NUMBER"
  shows "int (revision_count key version (snd (planConfig_create MAX_REVISION_NUMBER now req rows)))
           \<le> MAX_REVISION_NUMBER
         \<and> (key = params_key req \<and> version = params_version req \<and>
            int (revision_count key version rows) = MAX_REVISION_NUMBER \<and>
            0 < revision_count key version rows \<longrightarrow>
              (\<exists>i created. i < length rows \<and> PlanConfig_where key version (rows ! i) \<and>
                 (\<forall>p\<in>set rows. PlanConfig_where key version p \<longrightarrow>
                    pc_revision (rows ! i) \<le> pc_revision p) \<and>
                 snd (planConfig_create MAX_REVISION_NUMBER now req rows) =
                   rows[i := (rows ! i)\<lparr>pc_deletedBy := Some (authUser_userId req),
                                         pc_deletedAt := Some now\<rparr>] @ [created]))"
proof -
  let ?M = MAX_REVISION_NUMBER
  let ?k = "params_key req" and ?v = "params_version req"
  let ?c = "revision_count ?k ?v rows"
  let ?del = "deleteOldestRevision now (authUser_userId req) ?k ?v rows"
  have bound: "int (revision_count key version (snd (planConfig_create ?M now req rows))) \<le> ?M"
  proof (cases "?c = 0")
    case True
    then show ?thesis using assms by (simp add: planConfig_create_rows Let_def)
  next
    case False
    then obtain x where x: "first_of (PlanConfig_findAll ?k ?v rows) = Some x"
      using first_of_Some_iff[of ?k ?v rows] by auto
    show ?thesis
    proof (cases "(key, version) = (?k, ?v)")
      case True
      have s: "Suc (revision_count ?k ?v ?del) = ?c"
        using False by (intro deleteOldestRevision_count_same) simp
      show ?thesis
        using True False x assms s
        by (auto simp: planConfig_create_rows Let_def revision_count_append created_row_where)
    next
      case other: False
      have s: "revision_count key version ?del = revision_count key version rows"
        using other by (intro deleteOldestRevision_count_other) simp
      show ?thesis
        using other False x assms s
        by (auto simp: planConfig_create_rows Let_def revision_count_append created_row_where)
    qed
  qed
  have evict: "\<exists>i created. i < length rows \<and> PlanConfig_where key version (rows ! i) \<and>
                 (\<forall>p\<in>set rows. PlanConfig_where key version p \<longrightarrow>
                    pc_revision (rows ! i) \<le> pc_revision p) \<and>
                 snd (planConfig_create ?M now req rows) =
                   rows[i := (rows ! i)\<lparr>pc_deletedBy := Some (authUser_userId req),
                                         pc_deletedAt := Some now\<rparr>] @ [created]"
    if h: "key = ?k" "version = ?v" "int (revision_count key version rows) = ?M"
          "0 < revision_count key version rows"
  proof -
    from h obtain x where x: "first_of (PlanConfig_findAll ?k ?v rows) = Some x"
      using first_of_Some_iff[of ?k ?v rows] by auto
    from deleteOldestRevision_index[of ?k ?v rows now "authUser_userId req"] h
    obtain i where i: "i < length rows" "PlanConfig_where ?k ?v (rows ! i)"
      "\<forall>p\<in>set rows. PlanConfig_where ?k ?v p \<longrightarrow> pc_revision (rows ! i) \<le> pc_revision p"
      "?del = rows[i := (rows ! i)\<lparr>pc_deletedBy := Some (authUser_userId req), pc_deletedAt := Some now\<rparr>]"
      by auto
    have "snd (planConfig_create ?M now req rows) = ?del @ [created_row req x ?del]"
      using h x by (simp add: planConfig_create_rows Let_def)
    with i h show ?thesis by auto
  qed
  from bound evict show ?thesis by blast
qed

theorem planConfig_create_bounded_witness:
  "int (revision_count ''dev'' 1 rows0) \<le> 3 \<and>
   int (revision_count ''dev'' 1 (snd (planConfig_create 3 7 create_dev_1 rows0))) \<le> 3 \<and>
   snd (planConfig_create 3 7 create_dev_1 rows0) =
     [pc_row 1 ''dev'' 1 2,
      (pc_row 2 ''dev'' 1 1)\<lparr>pc_deletedBy := Some 40051333, pc_deletedAt := Some 7\<rparr>,
      pc_row 3 ''dev'' 2 1, pc_row 4 ''dev'' 1 3,
      \<lparr>pc_id = 5, pc_key = ''dev'', pc_version = 1, pc_revision = 4,
       pc_phases = VObj [(''1'', VObj [])], pc_createdBy = 40051333, pc_updatedBy = 40051333,
       pc_deletedBy = None, pc_deletedAt = None\<rparr>]"
proof -
  have h: "int (revision_count ''dev'' 1 rows0) \<le> 3"
    by (simp add: handler_defs)
  have b: "int (revision_count ''dev'' 1 (snd (planConfig_create 3 7 create_dev_1 rows0))) \<le> 3"
    using planConfig_create_bounded[OF h, of 7 create_dev_1] by blast
  have e: "snd (planConfig_create 3 7 create_dev_1 rows0) =
     [pc_row 1 ''dev'' 1 2,
      (pc_row 2 ''dev'' 1 1)\<lparr>pc_deletedBy := Some 40051333, pc_deletedAt := Some 7\<rparr>,
      pc_row 3 ''dev'' 2 1, pc_row 4 ''dev'' 1 3,
      \<lparr>pc_id = 5, pc_key = ''dev'', pc_version = 1, pc_revision = 4,
       pc_phases = VObj [(''1'', VObj [])], pc_createdBy = 40051333, pc_updatedBy = 40051333,
       pc_deletedBy = None, pc_deletedAt = None\<rparr>]"
    by (simp add: handler_defs)
  from h b e show ?thesis by blast
qed

text \<open>
  C4: when the key and version of the request have at least one revision, the handler
  answers 201 and appends one new row. Its revision number is the highest revision number
  stored for the key and version plus one, so it is above every stored one; \<open>createdBy\<close>
  and \<open>updatedBy\<close> are the requesting user; key, version and phases are the request's.
  Every row stored before is still at its place, and is either unchanged or the evicted
  revision, which differs only in \<open>deletedBy\<close> and \<open>deletedAt\<close>: no surviving revision is
  modified.
\<close>

theorem planConfig_create_appends:
  assumes "0 < revision_count (params_key req) (params_version req) rows"
  shows "\<exists>latest created rows1.
           latest \<in> set rows \<and> PlanConfig_where (params_key req) (params_version req) latest \<and>
           (\<forall>p\<in>set rows. PlanConfig_where (params_key req) (params_version req) p \<longrightarrow>
              pc_revision p \<le> pc_revision latest) \<and>
           planConfig_create MAX_REVISION_NUMBER now req rows =
             (Res 201 (wrapResponse (req_id req)
                (VObj (omit [''deletedAt'', ''deletedBy''] (planConfig_toJSON created))) 1 201),
              rows1 @ [created]) \<and>
           created =
             \<lparr>pc_id = next_id rows1, pc_key = params_key req, pc_version = params_version req,
              pc_revision = pc_revision latest + 1, pc_phases = body_param_phases req,
              pc_createdBy = authUser_userId req, pc_updatedBy = authUser_userId req,
              pc_deletedBy = None, pc_deletedAt = None\<rparr> \<and>
           length rows1 = length rows \<and>
           (\<forall>i<length rows.
              rows1 ! i = rows ! i \<or>
              rows1 ! i = (rows ! i)\<lparr>pc_deletedBy := Some (authUser_userId req),
                                      pc_deletedAt := Some now\<rparr>) \<and>
           (\<forall>p\<in>set rows. PlanConfig_where (params_key req) (params_version req) p \<longrightarrow>
              pc_revision p < pc_revision created)"
proof -
  let ?k = "params_key req" and ?v = "params_version req"
  let ?M = MAX_REVISION_NUMBER
  let ?del = "deleteOldestRevision now (authUser_userId req) ?k ?v rows"
  from assms have ne: "filter (PlanConfig_where ?k ?v) rows \<noteq> []"
    by (auto simp: revision_count_def)
  from first_of_findAll[OF ne] obtain x where
    x: "first_of (PlanConfig_findAll ?k ?v rows) = Some x" "x \<in> set rows" "PlanConfig_where ?k ?v x"
       "\<forall>p\<in>set rows. PlanConfig_where ?k ?v p \<longrightarrow> pc_revision p \<le> pc_revision x"
    by blast
  define rows1 where "rows1 = (if ?M \<le> int (revision_count ?k ?v rows) then ?del else rows)"
  define created where "created = created_row req x rows1"
  have run: "planConfig_create ?M now req rows = (created_response req created, rows1 @ [created])"
    using planConfig_create_plain[of req rows ?M x now] planConfig_create_evict[of ?M req rows x now] x(1)
    by (cases "int (revision_count ?k ?v rows) < ?M") (auto simp: rows1_def created_def Let_def)
  have len: "length rows1 = length rows"
    using deleteOldestRevision_rows[of now "authUser_userId req" ?k ?v rows] by (simp add: rows1_def)
  have old: "\<forall>i<length rows.
              rows1 ! i = rows ! i \<or>
              rows1 ! i = (rows ! i)\<lparr>pc_deletedBy := Some (authUser_userId req), pc_deletedAt := Some now\<rparr>"
    using deleteOldestRevision_rows[of now "authUser_userId req" ?k ?v rows] by (simp add: rows1_def)
  have cr: "created =
             \<lparr>pc_id = next_id rows1, pc_key = ?k, pc_version = ?v,
              pc_revision = pc_revision x + 1, pc_phases = body_param_phases req,
              pc_createdBy = authUser_userId req, pc_updatedBy = authUser_userId req,
              pc_deletedBy = None, pc_deletedAt = None\<rparr>"
    by (simp add: created_def created_row_eq)
  have lt: "\<forall>p\<in>set rows. PlanConfig_where ?k ?v p \<longrightarrow> pc_revision p < pc_revision created"
    using x(4) by (auto simp: cr)
  from run x(2,3,4) cr len old lt show ?thesis
    unfolding created_response_def by blast
qed

theorem planConfig_create_appends_witness:
  "0 < revision_count (params_key create_dev_1) (params_version create_dev_1) rows0 \<and>
   fst (planConfig_create 5 7 create_dev_1 rows0) =
     Res 201 (wrapResponse ''r2''
       (VObj [(''id'', VNum 5), (''key'', VStr ''dev''), (''version'', VNum 1), (''revision'', VNum 4),
              (''phases'', VObj [(''1'', VObj [])]), (''createdBy'', VNum 40051333),
              (''updatedBy'', VNum 40051333)]) 1 201) \<and>
   snd (planConfig_create 5 7 create_dev_1 rows0) =
     rows0 @ [\<lparr>pc_id = 5, pc_key = ''dev'', pc_version = 1, pc_revision = 4,
       pc_phases = VObj [(''1'', VObj [])], pc_createdBy = 40051333, pc_updatedBy = 40051333,
       pc_deletedBy = None, pc_deletedAt = None\<rparr>]"
proof -
  have h: "0 < revision_count (params_key create_dev_1) (params_version create_dev_1) rows0"
    by (simp add: handler_defs)
  from planConfig_create_appends[OF h, of 5 7] obtain latest created rows1 where
    run: "planConfig_create 5 7 create_dev_1 rows0 =
             (Res 201 (wrapResponse (req_id create_dev_1)
                (VObj (omit [''deletedAt'', ''deletedBy''] (planConfig_toJSON created))) 1 201),
              rows1 @ [created])"
    by blast
  have e: "planConfig_create 5 7 create_dev_1 rows0 =
     (Res 201 (wrapResponse ''r2''
       (VObj [(''id'', VNum 5), (''key'', VStr ''dev''), (''version'', VNum 1), (''revision'', VNum 4),
              (''phases'', VObj [(''1'', VObj [])]), (''createdBy'', VNum 40051333),
              (''updatedBy'', VNum 40051333)]) 1 201),
      rows0 @ [\<lparr>pc_id = 5, pc_key = ''dev'', pc_version = 1, pc_revision = 4,
       pc_phases = VObj [(''1'', VObj [])], pc_createdBy = 40051333, pc_updatedBy = 40051333,
       pc_deletedBy = None, pc_deletedAt = None\<rparr>])"
    by (simp add: handler_defs omit_def planConfig_toJSON_def opt_num_def)
  from h run e show ?thesis by simp
qed

text \<open>
  C5: the form-version delete handler passes an error of status 404 to \<open>next\<close> exactly
  when no Form row matches the key and version, and then the stored rows are as they
  were. So does the create-revision handler for PlanConfig rows, when the number of
  revisions of the key and version is below \<open>MAX_REVISION_NUMBER\<close>.
\<close>

theorem not_found_iff_no_row:
  "((\<exists>e. fst (form_version_delete now req forms) = Next e \<and> error_status e = Some 404) \<longleftrightarrow>
      Form_findAll (params_key req) (params_version req) forms = [])
   \<and> (Form_findAll (params_key req) (params_version req) forms = [] \<longrightarrow>
        snd (form_version_delete now req forms) = forms)
   \<and> (int (revision_count (params_key req) (params_version req) rows) < MAX_REVISION_NUMBER \<longrightarrow>
        ((\<exists>e. fst (planConfig_create MAX_REVISION_NUMBER now req rows) = Next e \<and>
              error_status e = Some 404) \<longleftrightarrow>
           revision_count (params_key req) (params_version req) rows = 0)
        \<and> (revision_count (params_key req) (params_version req) rows = 0 \<longrightarrow>
             snd (planConfig_create MAX_REVISION_NUMBER now req rows) = rows))"
proof -
  let ?k = "params_key req" and ?v = "params_version req"
  let ?M = MAX_REVISION_NUMBER
  have f1: "(\<exists>e. fst (form_version_delete now req forms) = Next e \<and> error_status e = Some 404) \<longleftrightarrow>
      Form_findAll ?k ?v forms = []"
    by (simp add: form_version_delete_eq form_not_found_def)
  have f2: "Form_findAll ?k ?v forms = [] \<longrightarrow> snd (form_version_delete now req forms) = forms"
    by (simp add: form_version_delete_eq)
  have p: "((\<exists>e. fst (planConfig_create ?M now req rows) = Next e \<and> error_status e = Some 404) \<longleftrightarrow>
           revision_count ?k ?v rows = 0)
        \<and> (revision_count ?k ?v rows = 0 \<longrightarrow> snd (planConfig_create ?M now req rows) = rows)"
    if lt: "int (revision_count ?k ?v rows) < ?M"
  proof (cases "revision_count ?k ?v rows = 0")
    case True
    then show ?thesis
      using planConfig_create_not_found[OF lt True, of now] by (simp add: planConfig_not_found_def)
  next
    case False
    then obtain x where x: "first_of (PlanConfig_findAll ?k ?v rows) = Some x"
      using first_of_Some_iff[of ?k ?v rows] by auto
    show ?thesis
      using False planConfig_create_plain[OF lt x, of now] by (simp add: created_response_def)
  qed
  from f1 f2 p show ?thesis by blast
qed

theorem not_found_iff_no_row_witness:
  "Form_findAll (params_key create_qa_9) (params_version create_qa_9) forms0 = [] \<and>
   form_version_delete 7 create_qa_9 forms0 =
     (Next (Error ''Form not found for key qa version 9'' (Some 404)), forms0) \<and>
   int (revision_count (params_key create_qa_9) (params_version create_qa_9) rows0) < 3 \<and>
   revision_count (params_key create_qa_9) (params_version create_qa_9) rows0 = 0 \<and>
   planConfig_create 3 7 create_qa_9 rows0 =
     (Next (Error ''PlanConfig not found for key qa version 9'' (Some 404)), rows0)"
proof -
  have h1: "Form_findAll (params_key create_qa_9) (params_version create_qa_9) forms0 = []"
    by (simp add: Form_findAll_def Form_where_def create_qa_9_def forms0_def form_row_def)
  have h2: "int (revision_count (params_key create_qa_9) (params_version create_qa_9) rows0) < 3"
    by (simp add: handler_defs)
  have h3: "revision_count (params_key create_qa_9) (params_version create_qa_9) rows0 = 0"
    by (simp add: handler_defs)
  note t = not_found_iff_no_row[of 7 create_qa_9 forms0 rows0 3]
  have s1: "snd (form_version_delete 7 create_qa_9 forms0) = forms0" using t h1 by blast
  have s2: "snd (planConfig_create 3 7 create_qa_9 rows0) = rows0" using t h2 h3 by blast
  have f1: "fst (form_version_delete 7 create_qa_9 forms0) =
      Next (Error ''Form not found for key qa version 9'' (Some 404))"
    using h1 by (simp add: form_version_delete_eq form_not_found_def create_qa_9_def show_int_def)
  have f2: "fst (planConfig_create 3 7 create_qa_9 rows0) =
      Next (Error ''PlanConfig not found for key qa version 9'' (Some 404))"
    using planConfig_create_not_found[OF h2 h3, of 7]
    by (simp add: planConfig_not_found_def create_qa_9_def show_int_def)
  from h1 h2 h3 s1 s2 f1 f2 show ?thesis by (simp add: prod_eq_iff)
qed

section \<open>The application: properties\<close>

text \<open>
  The middleware chains of the two modules of \<open>routes/form/version/delete.js\<close> are
  guarded, whatever the request and the permission policies: they validate, check the
  permission, and only then let the handler work on the ORM.
\<close>

theorem routes_guarded:
  "guarded (fst (run_chain e form_version_delete_route req d)) \<and>
   guarded (fst (run_chain e planConfig_create_route req d))"
  by (simp add: form_version_delete_route_def planConfig_create_route_def guarded_def
      split: prod.splits)

text \<open>
  C2: a \<open>GET /v4/projects/eslog\<close> request whose query has a parameter \<open>q\<close> makes the
  application execute exactly \<open>q\<close> as a command (when \<open>exec\<close> accepts it) and answer with
  the command's stdout, stderr and error object. Nothing is validated and no permission
  is checked: the run consists of the execution alone and is the same whatever the
  permission policies say. Two such requests with different \<open>q\<close> execute different
  commands, and their responses differ whenever the outputs of the commands do.
\<close>

theorem eslog_executes_query:
  assumes "req_method req = ''GET''" and "req_path req = ''/v4/projects/eslog''"
      and "map_of (req_query req) ''q'' = Some q" and "env_exec e (Some q) = Some r"
  shows "app e router req d =
           ([ProcessExec (Some q)],
            Res 200 (JsonBody (VObj
              [(''out1'', VStr (''stdout: '' @ exec_stdout r)),
               (''erro1'', VStr (''stderr: '' @ exec_stderr r)),
               (''errs1'', VStr (env_stringify e (exec_err r)))])),
            d)
         \<and> app (e\<lparr>env_can := c\<rparr>) router req d = app e router req d
         \<and> (\<forall>req' q' r'.
              req_method req' = ''GET'' \<and> req_path req' = ''/v4/projects/eslog'' \<and>
              map_of (req_query req') ''q'' = Some q' \<and> env_exec e (Some q') = Some r' \<longrightarrow>
                (q' \<noteq> q \<longrightarrow> fst (app e router req' d) \<noteq> fst (app e router req d)) \<and>
                (exec_stdout r' \<noteq> exec_stdout r \<or> exec_stderr r' \<noteq> exec_stderr r \<longrightarrow>
                   fst (snd (app e router req' d)) \<noteq> fst (snd (app e router req d))))"
proof -
  have run: "app e' router req' d =
           ([ProcessExec (Some q')],
            Res 200 (JsonBody (VObj
              [(''out1'', VStr (''stdout: '' @ exec_stdout r')),
               (''erro1'', VStr (''stderr: '' @ exec_stderr r')),
               (''errs1'', VStr (env_stringify e' (exec_err r')))])),
            d)"
    if "req_method req' = ''GET''" "req_path req' = ''/v4/projects/eslog''"
       "map_of (req_query req') ''q'' = Some q'" "env_exec e' (Some q') = Some r'"
    for e' req' q' r'
    using that by (simp add: app_def projects_eslog_def)
  have a: "app e router req d =
           ([ProcessExec (Some q)],
            Res 200 (JsonBody (VObj
              [(''out1'', VStr (''stdout: '' @ exec_stdout r)),
               (''erro1'', VStr (''stderr: '' @ exec_stderr r)),
               (''errs1'', VStr (env_stringify e (exec_err r)))])),
            d)"
    using assms by (rule run)
  have b: "app (e\<lparr>env_can := c\<rparr>) router req d = app e router req d"
    using assms by (simp add: app_def projects_eslog_def)
  have c: "(q' \<noteq> q \<longrightarrow> fst (app e router req' d) \<noteq> fst (app e router req d)) \<and>
           (exec_stdout r' \<noteq> exec_stdout r \<or> exec_stderr r' \<noteq> exec_stderr r \<longrightarrow>
              fst (snd (app e router req' d)) \<noteq> fst (snd (app e router req d)))"
    if "req_method req' = ''GET'' \<and> req_path req' = ''/v4/projects/eslog'' \<and>
        map_of (req_query req') ''q'' = Some q' \<and> env_exec e (Some q') = Some r'"
    for req' q' r'
  proof -
    have "app e router req' d =
           ([ProcessExec (Some q')],
            Res 200 (JsonBody (VObj
              [(''out1'', VStr (''stdout: '' @ exec_stdout r')),
               (''erro1'', VStr (''stderr: '' @ exec_stderr r')),
               (''errs1'', VStr (env_stringify e (exec_err r')))])),
            d)"
      using that by (intro run) auto
    with a show ?thesis by auto
  qed
  from a b c show ?thesis by blast
qed

theorem eslog_executes_query_witness:
  "app env0 no_router (anonymous ''GET'' ''/v4/projects/eslog'' [(''q'', ''cat /etc/passwd'')]) db0 =
     ([ProcessExec (Some ''cat /etc/passwd'')],
      Res 200 (JsonBody (VObj
        [(''out1'', VStr ''stdout: cat /etc/passwd''), (''erro1'', VStr ''stderr: ''),
         (''errs1'', VStr ''null'')])),
      db0) \<and>
   fst (snd (app env0 no_router (anonymous ''GET'' ''/v4/projects/eslog'' [(''q'', ''id'')]) db0)) \<noteq>
   fst (snd (app env0 no_router (anonymous ''GET'' ''/v4/projects/eslog'' [(''q'', ''cat /etc/passwd'')]) db0))"
proof -
  let ?a = "anonymous ''GET'' ''/v4/projects/eslog'' [(''q'', ''cat /etc/passwd'')]"
  let ?b = "anonymous ''GET'' ''/v4/projects/eslog'' [(''q'', ''id'')]"
  let ?ra = "\<lparr>exec_err = VNull, exec_stdout = ''cat /etc/passwd'', exec_stderr = []\<rparr>"
  let ?rb = "\<lparr>exec_err = VNull, exec_stdout = ''id'', exec_stderr = []\<rparr>"
  have a1: "req_method ?a = ''GET''" and a2: "req_path ?a = ''/v4/projects/eslog''"
    and a3: "map_of (req_query ?a) ''q'' = Some ''cat /etc/passwd''"
    and a4: "env_exec env0 (Some ''cat /etc/passwd'') = Some ?ra"
    by (simp_all add: anonymous_def env0_def echo_shell_def)
  have b1: "req_method ?b = ''GET'' \<and> req_path ?b = ''/v4/projects/eslog'' \<and>
      map_of (req_query ?b) ''q'' = Some ''id'' \<and> env_exec env0 (Some ''id'') = Some ?rb"
    by (simp add: anonymous_def env0_def echo_shell_def)
  note t = eslog_executes_query[OF a1 a2 a3 a4, of no_router db0 "\<lambda>policy req. False"]
  from t have run: "app env0 no_router ?a db0 =
     ([ProcessExec (Some ''cat /etc/passwd'')],
      Res 200 (JsonBody (VObj
        [(''out1'', VStr (''stdout: '' @ exec_stdout ?ra)),
         (''erro1'', VStr (''stderr: '' @ exec_stderr ?ra)),
         (''errs1'', VStr (env_stringify env0 (exec_err ?ra)))])),
      db0)" by blast
  from t b1 have diff: "exec_stdout ?rb \<noteq> exec_stdout ?ra \<or> exec_stderr ?rb \<noteq> exec_stderr ?ra \<longrightarrow>
     fst (snd (app env0 no_router ?b db0)) \<noteq> fst (snd (app env0 no_router ?a db0))" by blast
  have "exec_stdout ?rb \<noteq> exec_stdout ?ra" by simp
  with diff have d: "fst (snd (app env0 no_router ?b db0)) \<noteq> fst (snd (app env0 no_router ?a db0))"
    by blast
  from run d show ?thesis by (simp add: env0_def)
qed

text \<open>
  C1 (does not hold on the code): the claim asks every registered route to check a
  permission before it queries the ORM or executes a process. The two routes
  \<open>app.get('/v4/projects/index')\<close> and \<open>app.get('/v4/projects/eslog')\<close> are registered
  without any middleware. With permission policies that allow nothing, an anonymous
  \<open>GET /v4/projects/eslog?q=cat /etc/passwd\<close> executes the command and is answered 200,
  and \<open>GET /v4/projects/index\<close> executes its two commands: neither run is guarded. The
  middleware chain of the form-version delete route, under the same policies, stops at
  the permission check with status 403 and leaves the tables alone.
\<close>

theorem eslog_reached_without_permission:
  "app env0 no_router (anonymous ''GET'' ''/v4/projects/eslog'' [(''q'', ''cat /etc/passwd'')]) db0 =
     ([ProcessExec (Some ''cat /etc/passwd'')],
      Res 200 (JsonBody (VObj
        [(''out1'', VStr ''stdout: cat /etc/passwd''), (''erro1'', VStr ''stderr: ''),
         (''errs1'', VStr ''null'')])),
      db0)
   \<and> \<not> guarded (fst (app env0 no_router
          (anonymous ''GET'' ''/v4/projects/eslog'' [(''q'', ''cat /etc/passwd'')]) db0))
   \<and> \<not> guarded (fst (app env0 no_router (anonymous ''GET'' ''/v4/projects/index'' []) db0))
   \<and> run_chain env0 form_version_delete_route delete_dev_1 db0 =
       ([Validated True, PermissionChecked ''form.create'' False],
        Next (Error ''You do not have permissions to perform this action'' (Some 403)), db0)"
  by (simp add: app_def projects_eslog_def projects_index_def anonymous_def env0_def echo_shell_def
      guarded_def form_version_delete_route_def form_version_schema_def delete_dev_1_def)

section \<open>The Project model: properties\<close>











section \<open>searchText: properties\<close>




text \<open>
  What \<open>searchText\<close> resolves to when neither statement is refused. The rows are the
  matching projects in the requested order, from \<open>offset\<close> on and at most \<open>limit\<close> of
  them. The count is the number of matching projects, except that with the member and
  invite joins and exactly one matching project it is the number of joined rows of that
  project.
\<close>

theorem searchText_count:
  assumes "query_refused g (count_sql (par_filters p)) (replacements (par_filters p)) = None"
      and "query_refused g (select_sql p) (replacements (par_filters p) @ limit_offset p) = None"
  shows "searchText g p d =
           Inr \<lparr>result_rows = select_result g p d,
                result_count =
                  (case matching_projects g (par_filters p) d of
                     [x] \<Rightarrow> if has_user_filter (par_filters p)
                            then int (length (group_rows g (par_filters p) d x)) else 1
                   | xs \<Rightarrow> int (length xs))\<rparr>
         \<and> length (select_result g p d) \<le> par_limit p"
proof (cases "has_user_filter (par_filters p)")
  case True
  then show ?thesis using assms
    by (cases "matching_projects g (par_filters p) d" rule: list.exhaust[case_product list.exhaust])
       (auto simp: searchText_def fcount_query_def projects_query_def count_result_def Let_def
          select_result_def split: list.splits)
next
  case False
  then show ?thesis using assms
    by (auto simp: searchText_def fcount_query_def projects_query_def count_result_def Let_def
          select_result_def split: list.splits)
qed

theorem searchText_count_witness:
  "query_refused pg0 (count_sql (par_filters (search_with no_filters)))
     (replacements (par_filters (search_with no_filters))) = None \<and>
   searchText pg0 (search_with no_filters) tables0 =
     Inr \<lparr>result_rows = [[(''id'', VNum 1), (''name'', VStr ''p1'')],
                          [(''id'', VNum 2), (''name'', VStr ''p2'')]],
          result_count = 2\<rparr>"
proof -
  have h1: "query_refused pg0 (count_sql (par_filters (search_with no_filters)))
     (replacements (par_filters (search_with no_filters))) = None"
    by code_simp
  have h2: "query_refused pg0 (select_sql (search_with no_filters))
     (replacements (par_filters (search_with no_filters)) @ limit_offset (search_with no_filters)) = None"
    by code_simp
  have r: "select_result pg0 (search_with no_filters) tables0 =
     [[(''id'', VNum 1), (''name'', VStr ''p1'')], [(''id'', VNum 2), (''name'', VStr ''p2'')]]"
    by code_simp
  have c: "(case matching_projects pg0 (par_filters (search_with no_filters)) tables0 of
              [x] \<Rightarrow> if has_user_filter (par_filters (search_with no_filters))
                     then int (length (group_rows pg0 (par_filters (search_with no_filters)) tables0 x))
                     else 1
            | xs \<Rightarrow> int (length xs)) = 2"
    by code_simp
  from searchText_count[OF h1 h2, of tables0] h1 r c show ?thesis by simp
qed

text \<open>
  C8 (does not hold on the code): the claim asks \<open>count\<close> to be the number of projects
  that match the filters, also with the member and invite joins and when exactly one
  project matches. With the \<open>userId\<close> and \<open>email\<close> filters the count statement has
  \<open>GROUP BY projects.id\<close> and returns one row per matching project, each holding the number
  of joined rows of its project; \<open>if (fcount.length === 1) count = fcount[0].count\<close> then
  takes that number for the count. In the example tables user 7 is a member of project 1,
  which has two invites: one project matches, one row is returned, and the count is 2.
\<close>

theorem searchText_count_of_single_group:
  "searchText pg0 of_user_7 tables0 =
     Inr \<lparr>result_rows = [[(''id'', VNum 1), (''name'', VStr ''p1'')]], result_count = 2\<rparr>
   \<and> length (matching_projects pg0 (par_filters of_user_7) tables0) = 1
   \<and> count_result pg0 (par_filters of_user_7) tables0 = [2]"
  by code_simp




end
